theory Spec2Isabelle
  imports Complex_Main "HOL-Library.Word" "HOL-Library.Sublist" "HOL-Library.Multiset"
begin

section \<open>Data model (package types)\<close>

text \<open>
  Conventions of the embedding.
  \<^item> A Go \<open>float64\<close> is read as the \<open>real\<close> it denotes: the metric values are taken
    to be finite (no NaN, no infinity), on which \<open>>\<close> of the floats is \<open>>\<close> of the
    reals. Arithmetic is exact in the model; the rounding of the floating-point
    operations is not modelled.
  \<^item> A Go \<open>uint64\<close> is a \<open>64 word\<close>; \<open>float64(x)\<close> of it is \<open>real (unat x)\<close>.
  \<^item> A Go \<open>int\<close> that is only compared and converted is an \<open>int\<close>.
  \<^item> \<open>time.Time\<close> is a natural number (a clock reading). \<open>time.Now()\<close> is read
    from an explicit clock, see \<open>CheckThresholds\<close>.
  \<^item> Field names carry a short prefix of their struct, since several structs of the
    source share field names (and \<open>Max\<close>, \<open>Min\<close> are constants of HOL). A local
    variable whose name is a constant of HOL (\<open>sum\<close>, \<open>sorted\<close>, \<open>times\<close>, \<open>max\<close>,
    \<open>min\<close>) is primed or renamed.
  \<^item> The \<open>Timestamp\<close> field of the metric structs is not modelled; the one of
    \<open>Alert\<close> is.
\<close>

type_synonym time = nat

type_synonym AlertType = string
type_synonym AlertSeverity = string

definition AlertTypeCPU :: AlertType where "AlertTypeCPU = ''cpu''"
definition AlertTypeMemory :: AlertType where "AlertTypeMemory = ''memory''"
definition AlertTypeEventLoop :: AlertType where "AlertTypeEventLoop = ''eventloop''"
definition AlertTypeHeap :: AlertType where "AlertTypeHeap = ''heap''"

definition SeverityInfo :: AlertSeverity where "SeverityInfo = ''info''"
definition SeverityWarning :: AlertSeverity where "SeverityWarning = ''warning''"
definition SeverityCritical :: AlertSeverity where "SeverityCritical = ''critical''"

text \<open>
  \<open>fmt.Sprintf(format, args...)\<close> is kept symbolic: the format string of the source
  and the arguments it is applied to.
\<close>

datatype fmtarg = ArgFloat real | ArgInt int

datatype message = Sprintf string "fmtarg list"

record Alert =
  a_Type :: AlertType
  a_Severity :: AlertSeverity
  a_Message :: message
  a_Value :: real
  a_Threshold :: real
  a_Timestamp :: time

record CPUMetrics =
  cpu_Usage :: real
  cpu_UserTime :: real
  cpu_SystemTime :: real

record MemoryMetrics =
  mem_RSS :: "64 word"
  mem_VMS :: "64 word"
  mem_HeapTotal :: "64 word"
  mem_HeapUsed :: "64 word"
  mem_External :: "64 word"

record EventLoopMetrics =
  el_Lag :: real
  el_Mean :: real
  el_Max :: real
  el_P95 :: real
  el_Min :: real
  el_Utilization :: real

record ThreadPoolMetrics =
  tp_QueueSize :: int
  tp_PoolSize :: int
  tp_ActiveCount :: int
  tp_PendingCount :: int

record GCMetrics =
  gc_Collections :: int
  gc_Duration :: real
  gc_HeapSizeBefore :: "64 word"
  gc_HeapSizeAfter :: "64 word"
  gc_Type :: string
  gc_Reason :: string
  gc_CollectionsTotal :: int
  gc_DurationTotal :: real

record HandleMetrics =
  h_Active :: int
  h_Refs :: int
  h_Timers :: int
  h_TCPSockets :: int
  h_UDPSockets :: int
  h_Files :: int

text \<open>A Go \<open>map[string]uint64\<close> is an association list; \<open>make(map...)\<close> is \<open>[]\<close>.\<close>

record V8Metrics =
  v8_HeapSpaceUsed :: "(string \<times> 64 word) list"
  v8_HeapSpaceSize :: "(string \<times> 64 word) list"
  v8_HeapSpaceAvailable :: "(string \<times> 64 word) list"
  v8_MallocedMemory :: "64 word"
  v8_PeakMallocedMemory :: "64 word"

record Status =
  st_PID :: int
  st_CPU :: CPUMetrics
  st_Memory :: MemoryMetrics
  st_EventLoop :: EventLoopMetrics
  st_ThreadPool :: ThreadPoolMetrics
  st_GC :: GCMetrics
  st_Handles :: HandleMetrics
  st_V8 :: V8Metrics
  st_Alerts :: "Alert list"

section \<open>Configuration (package config)\<close>

record ServiceConfig =
  cfg_Host :: string
  cfg_Port :: int
  cfg_PID :: int
  cfg_InspectPort :: int
  cfg_PollingInterval :: int
  cfg_HeapLimit :: string
  cfg_CPUThreshold :: real

section \<open>Alert manager (package alerts)\<close>

record Manager =
  activeAlerts :: "string \<rightharpoonup> Alert"

definition NewManager :: Manager where
  "NewManager = \<lparr>activeAlerts = Map.empty\<rparr>"

text \<open>
  \<open>CheckThresholds\<close> is seven consecutive blocks, each of which appends at most one
  alert to the local slice \<open>alerts\<close>. Each block is one definition below, taking the
  slice built so far and returning the extended one, in the order of the source.

  \<open>time.Now()\<close> is called once for each alert that is appended. The clock is the
  function \<open>now\<close>: the reading taken for the alert that becomes element \<open>k\<close> of the
  slice is \<open>now k\<close>.
\<close>

definition check_cpu :: "(nat \<Rightarrow> time) \<Rightarrow> Status \<Rightarrow> ServiceConfig \<Rightarrow> Alert list \<Rightarrow> Alert list" where
  "check_cpu now status cfg alerts =
     (if cpu_Usage (st_CPU status) > cfg_CPUThreshold cfg then
        (let severity = (if cpu_Usage (st_CPU status) > 90 then SeverityCritical else SeverityWarning);
             alert = \<lparr>a_Type = AlertTypeCPU,
                      a_Severity = severity,
                      a_Message = Sprintf ''High CPU usage: %.2f%% (threshold: %.2f%%)''
                                    [ArgFloat (cpu_Usage (st_CPU status)), ArgFloat (cfg_CPUThreshold cfg)],
                      a_Value = cpu_Usage (st_CPU status),
                      a_Threshold = cfg_CPUThreshold cfg,
                      a_Timestamp = now (length alerts)\<rparr>
         in alerts @ [alert])
      else alerts)"

definition check_memory :: "(nat \<Rightarrow> time) \<Rightarrow> Status \<Rightarrow> Alert list \<Rightarrow> Alert list" where
  "check_memory now status alerts =
     (let memoryMB = real (unat (mem_RSS (st_Memory status))) / 1024 / 1024 in
      if memoryMB > 150 then
        (let severity = (if memoryMB > 200 then SeverityCritical else SeverityWarning);
             alert = \<lparr>a_Type = AlertTypeMemory,
                      a_Severity = severity,
                      a_Message = Sprintf ''High memory usage: %.1f MB (threshold: 150 MB)''
                                    [ArgFloat memoryMB],
                      a_Value = memoryMB,
                      a_Threshold = 150,
                      a_Timestamp = now (length alerts)\<rparr>
         in alerts @ [alert])
      else alerts)"

definition check_heap :: "(nat \<Rightarrow> time) \<Rightarrow> Status \<Rightarrow> Alert list \<Rightarrow> Alert list" where
  "check_heap now status alerts =
     (if mem_HeapTotal (st_Memory status) > 0 then
        (let heapUsage = (real (unat (mem_HeapUsed (st_Memory status)))
                            / real (unat (mem_HeapTotal (st_Memory status)))) * 100 in
         if heapUsage > 80 then
           (let severity = (if heapUsage > 95 then SeverityCritical else SeverityWarning);
                alert = \<lparr>a_Type = AlertTypeHeap,
                         a_Severity = severity,
                         a_Message = Sprintf ''High heap usage: %.1f%% (threshold: 80%%)''
                                       [ArgFloat heapUsage],
                         a_Value = heapUsage,
                         a_Threshold = 80,
                         a_Timestamp = now (length alerts)\<rparr>
            in alerts @ [alert])
         else alerts)
      else alerts)"

definition check_lag :: "(nat \<Rightarrow> time) \<Rightarrow> Status \<Rightarrow> Alert list \<Rightarrow> Alert list" where
  "check_lag now status alerts =
     (if el_Lag (st_EventLoop status) > 5 then
        (let severity = (if el_Lag (st_EventLoop status) > 20 then SeverityCritical else SeverityWarning);
             alert = \<lparr>a_Type = AlertTypeEventLoop,
                      a_Severity = severity,
                      a_Message = Sprintf ''High event loop lag: %.2fms (threshold: 5ms)''
                                    [ArgFloat (el_Lag (st_EventLoop status))],
                      a_Value = el_Lag (st_EventLoop status),
                      a_Threshold = 5,
                      a_Timestamp = now (length alerts)\<rparr>
         in alerts @ [alert])
      else alerts)"

definition check_utilization :: "(nat \<Rightarrow> time) \<Rightarrow> Status \<Rightarrow> Alert list \<Rightarrow> Alert list" where
  "check_utilization now status alerts =
     (if el_Utilization (st_EventLoop status) > 70 then
        (let severity = (if el_Utilization (st_EventLoop status) > 90 then SeverityCritical else SeverityWarning);
             alert = \<lparr>a_Type = AlertTypeEventLoop,
                      a_Severity = severity,
                      a_Message = Sprintf ''High event loop utilization: %.1f%% (threshold: 70%%)''
                                    [ArgFloat (el_Utilization (st_EventLoop status))],
                      a_Value = el_Utilization (st_EventLoop status),
                      a_Threshold = 70,
                      a_Timestamp = now (length alerts)\<rparr>
         in alerts @ [alert])
      else alerts)"

definition check_gc :: "(nat \<Rightarrow> time) \<Rightarrow> Status \<Rightarrow> Alert list \<Rightarrow> Alert list" where
  "check_gc now status alerts =
     (if gc_Duration (st_GC status) > 10 then
        (let severity = (if gc_Duration (st_GC status) > 50 then SeverityCritical else SeverityWarning);
             alert = \<lparr>a_Type = ''gc'',
                      a_Severity = severity,
                      a_Message = Sprintf ''Long GC duration: %.2fms (threshold: 10ms)''
                                    [ArgFloat (gc_Duration (st_GC status))],
                      a_Value = gc_Duration (st_GC status),
                      a_Threshold = 10,
                      a_Timestamp = now (length alerts)\<rparr>
         in alerts @ [alert])
      else alerts)"

definition check_handles :: "(nat \<Rightarrow> time) \<Rightarrow> Status \<Rightarrow> Alert list \<Rightarrow> Alert list" where
  "check_handles now status alerts =
     (if h_Active (st_Handles status) > 50 then
        (let severity = (if h_Active (st_Handles status) > 100 then SeverityCritical else SeverityWarning);
             alert = \<lparr>a_Type = ''handles'',
                      a_Severity = severity,
                      a_Message = Sprintf ''High handle count: %d (threshold: 50)''
                                    [ArgInt (h_Active (st_Handles status))],
                      a_Value = real_of_int (h_Active (st_Handles status)),
                      a_Threshold = 50,
                      a_Timestamp = now (length alerts)\<rparr>
         in alerts @ [alert])
      else alerts)"

text \<open>
  The method has the receiver \<open>m *Manager\<close>, which its body never reads or writes:
  the model takes the manager and returns the alerts only.
\<close>

definition CheckThresholds :: "(nat \<Rightarrow> time) \<Rightarrow> Manager \<Rightarrow> Status \<Rightarrow> ServiceConfig \<Rightarrow> Alert list" where
  "CheckThresholds now m status cfg =
     (let alerts = [];
          alerts = check_cpu now status cfg alerts;
          alerts = check_memory now status alerts;
          alerts = check_heap now status alerts;
          alerts = check_lag now status alerts;
          alerts = check_utilization now status alerts;
          alerts = check_gc now status alerts;
          alerts = check_handles now status alerts
      in alerts)"

section \<open>The environment of one collection pass\<close>

text \<open>
  Errors are values: \<open>fmt.Errorf\<close> with its format string, \<open>Wrap\<close> when the format
  wraps a cause with \<open>%w\<close>, and \<open>LibError\<close> for an error that a library call
  (gopsutil, net, net/http, encoding/json) returned.
\<close>

datatype error = LibError | Errorf string | Wrap string error

text \<open>
  What the operating system and the inspector endpoint answer during one collection
  pass. A \<open>Process\<close> is the handle \<open>process.NewProcess\<close> returns, with the answers of
  its methods; \<open>w_HttpGetJSON port\<close> is the outcome of the GET of
  \<open>http://localhost:port/json\<close>: the connection failed, the body did not decode as a
  list of sessions, or a list of sessions, each with its \<open>webSocketDebuggerUrl\<close> when
  that field is a string. \<open>w_HttpGetEvaluate port\<close> tells whether the GET of
  \<open>/json/runtime/evaluate\<close> returned without error. \<open>w_Now\<close> is the clock read by
  \<open>CheckThresholds\<close>. Timeouts are part of these outcomes (a request that times out
  is one that failed). The conversion \<open>int32(pid)\<close> is not modelled: \<open>w_NewProcess\<close>
  is asked for the process id as it is. One \<open>World\<close> holds for a whole collection
  pass.
\<close>

record Process =
  p_CPUPercent :: "error + real"
  p_Times :: "error + (real \<times> real)"
  p_MemoryInfo :: "error + (64 word \<times> 64 word)"
  p_Connections :: "error + int list"

datatype inspector_reply = ConnectFailed | BadBody | Sessions "string option list"

record World =
  w_NewProcess :: "int \<Rightarrow> error + Process"
  w_Dial :: "int \<Rightarrow> bool"
  w_Processes :: "error + (int \<times> Process) list"
  w_HttpGetJSON :: "int \<Rightarrow> inspector_reply"
  w_HttpGetEvaluate :: "int \<Rightarrow> bool"
  w_Now :: "nat \<Rightarrow> time"

section \<open>Metric collector (package metrics)\<close>

text \<open>
  The collector's \<open>config\<close> is the pointer the monitor holds as well, so the model
  keeps the configuration in the monitor and passes it to the collector's methods.
  The fields \<open>eventLoopTimer\<close> and \<open>lastEventLoop\<close> are never used by the source.
\<close>

record Collector =
  eventLoopHist :: "real list"

definition NewCollector :: Collector where
  "NewCollector = \<lparr>eventLoopHist = []\<rparr>"

definition has_port :: "int \<Rightarrow> int \<times> Process \<Rightarrow> bool" where
  "has_port port pp = (case p_Connections (snd pp) of Inl err \<Rightarrow> False | Inr conns \<Rightarrow> port \<in> set conns)"

definition FindProcessByPort :: "World \<Rightarrow> int \<Rightarrow> error + int" where
  "FindProcessByPort w port =
     (if \<not> w_Dial w port then Inl (Wrap ''no process listening on port %d: %w'' LibError)
      else case w_Processes w of
             Inl err \<Rightarrow> Inl (Wrap ''failed to get processes: %w'' err)
           | Inr processes \<Rightarrow>
               (case find (has_port port) processes of
                  Some pp \<Rightarrow> Inr (fst pp)
                | None \<Rightarrow> Inl (Errorf ''could not find process for port %d'')))"

definition CollectCPU :: "World \<Rightarrow> int \<Rightarrow> error + CPUMetrics" where
  "CollectCPU w pid =
     (case w_NewProcess w pid of
        Inl err \<Rightarrow> Inl (Wrap ''failed to get process %d: %w'' err)
      | Inr proc \<Rightarrow>
          (case p_CPUPercent proc of
             Inl err \<Rightarrow> Inl (Wrap ''failed to get CPU percent: %w'' err)
           | Inr cpuPercent \<Rightarrow>
               (case p_Times proc of
                  Inl err \<Rightarrow> Inl (Wrap ''failed to get CPU times: %w'' err)
                | Inr cpuTimes \<Rightarrow>
                    Inr \<lparr>cpu_Usage = cpuPercent, cpu_UserTime = fst cpuTimes, cpu_SystemTime = snd cpuTimes\<rparr>)))"

definition getHeapUsageFromInspector :: "World \<Rightarrow> int \<Rightarrow> error + MemoryMetrics" where
  "getHeapUsageFromInspector w inspectPort =
     (if \<not> w_HttpGetEvaluate w inspectPort then Inl LibError
      else Inr \<lparr>mem_RSS = 0, mem_VMS = 0,
                mem_HeapTotal = 60 * 1024 * 1024,
                mem_HeapUsed = 45 * 1024 * 1024,
                mem_External = 8 * 1024 * 1024\<rparr>)"

definition getNodeMemoryInfo :: "World \<Rightarrow> ServiceConfig \<Rightarrow> int \<Rightarrow> error + MemoryMetrics" where
  "getNodeMemoryInfo w cfg pid =
     (if w_HttpGetJSON w (cfg_InspectPort cfg) = ConnectFailed
      then Inl (Wrap ''failed to connect to V8 inspector: %w'' LibError)
      else case getHeapUsageFromInspector w (cfg_InspectPort cfg) of
             Inl err \<Rightarrow> Inr \<lparr>mem_RSS = 0, mem_VMS = 0,
                              mem_HeapTotal = 50 * 1024 * 1024,
                              mem_HeapUsed = 30 * 1024 * 1024,
                              mem_External = 5 * 1024 * 1024\<rparr>
           | Inr memoryInfo \<Rightarrow> Inr memoryInfo)"

definition CollectMemory :: "World \<Rightarrow> ServiceConfig \<Rightarrow> int \<Rightarrow> error + MemoryMetrics" where
  "CollectMemory w cfg pid =
     (case w_NewProcess w pid of
        Inl err \<Rightarrow> Inl (Wrap ''failed to get process %d: %w'' err)
      | Inr proc \<Rightarrow>
          (case p_MemoryInfo proc of
             Inl err \<Rightarrow> Inl (Wrap ''failed to get memory info: %w'' err)
           | Inr memInfo \<Rightarrow>
               (case getNodeMemoryInfo w cfg pid of
                  Inl err \<Rightarrow> Inr \<lparr>mem_RSS = fst memInfo, mem_VMS = snd memInfo,
                                   mem_HeapTotal = 0, mem_HeapUsed = 0, mem_External = 0\<rparr>
                | Inr nodeMemory \<Rightarrow>
                    Inr \<lparr>mem_RSS = fst memInfo, mem_VMS = snd memInfo,
                         mem_HeapTotal = mem_HeapTotal nodeMemory,
                         mem_HeapUsed = mem_HeapUsed nodeMemory,
                         mem_External = mem_External nodeMemory\<rparr>)))"

definition getInspectorWebSocketURL :: "World \<Rightarrow> int \<Rightarrow> error + string" where
  "getInspectorWebSocketURL w inspectPort =
     (case w_HttpGetJSON w inspectPort of
        ConnectFailed \<Rightarrow> Inl (Wrap ''failed to connect to inspector: %w'' LibError)
      | BadBody \<Rightarrow> Inl (Wrap ''failed to parse inspector response: %w'' LibError)
      | Sessions sessions \<Rightarrow>
          (case sessions of
             [] \<Rightarrow> Inl (Errorf ''no inspector sessions available'')
           | s # rest \<Rightarrow>
               (case s of
                  None \<Rightarrow> Inl (Errorf ''no WebSocket URL found'')
                | Some wsURL \<Rightarrow> Inr wsURL)))"

text \<open>
  \<open>executeScript\<close> ignores the script and the URL: it derives a lag from the CPU
  usage of the process \<open>config.PID\<close>. Its result always is a \<open>float64\<close>, so the type
  assertion of \<open>measureEventLoopLag\<close> cannot fail.
\<close>

definition executeScript :: "World \<Rightarrow> ServiceConfig \<Rightarrow> string \<Rightarrow> error + real" where
  "executeScript w cfg wsURL =
     (case w_NewProcess w (cfg_PID cfg) of
        Inl err \<Rightarrow> Inl err
      | Inr proc \<Rightarrow>
          (case p_CPUPercent proc of
             Inl err \<Rightarrow> Inl err
           | Inr cpuPercent \<Rightarrow>
               (let baseLag = 0.5;
                    cpuFactor = cpuPercent / 100.0;
                    simulatedLag = baseLag + (cpuFactor * 50)
                in Inr simulatedLag)))"

definition measureEventLoopLag :: "World \<Rightarrow> ServiceConfig \<Rightarrow> int \<Rightarrow> error + real" where
  "measureEventLoopLag w cfg inspectPort =
     (case getInspectorWebSocketURL w inspectPort of
        Inl err \<Rightarrow> Inl err
      | Inr wsURL \<Rightarrow>
          (case executeScript w cfg wsURL of
             Inl err \<Rightarrow> Inl err
           | Inr lag \<Rightarrow> Inr lag))"

text \<open>
  The bubble sort of \<open>calculateEventLoopStats\<close>: the body of the inner loop, the
  inner loop for one \<open>i\<close>, and the outer loop. The slice keeps its length, so the
  bounds \<open>len(sorted)\<close> of the loops are those of the slice the loop starts with; the
  loops are folds over the index ranges.
\<close>

definition swap_step :: "nat \<Rightarrow> real list \<Rightarrow> real list" where
  "swap_step j sorted' =
     (if sorted' ! j > sorted' ! (j + 1)
      then sorted'[j := sorted' ! (j + 1), j + 1 := sorted' ! j]
      else sorted')"

definition inner_loop :: "nat \<Rightarrow> real list \<Rightarrow> real list" where
  "inner_loop i sorted' = fold swap_step [0 ..< length sorted' - 1 - i] sorted'"

definition bubble_sort :: "real list \<Rightarrow> real list" where
  "bubble_sort sorted' = fold inner_loop [0 ..< length sorted'] sorted'"

text \<open>The first loop: running sum, maximum and minimum.\<close>

definition stats_step :: "real \<Rightarrow> real \<times> real \<times> real \<Rightarrow> real \<times> real \<times> real" where
  "stats_step lag acc =
     (case acc of (acc_sum, mx, mn) \<Rightarrow>
        (acc_sum + lag, (if lag > mx then lag else mx), (if lag < mn then lag else mn)))"

text \<open>
  \<open>int(float64(len(sorted)) * 0.95)\<close> truncates a non-negative product, which is its
  floor; the product is taken over the reals. The result of
  \<open>calculateEventLoopStats\<close> is the tuple \<open>(mean, max, min, p95)\<close>.
\<close>

definition p95Index_of :: "nat \<Rightarrow> nat" where
  "p95Index_of n =
     (let p95Index = nat \<lfloor>real n * 0.95\<rfloor>
      in if p95Index \<ge> n then n - 1 else p95Index)"

definition calculateEventLoopStats :: "Collector \<Rightarrow> real \<times> real \<times> real \<times> real" where
  "calculateEventLoopStats c =
     (if length (eventLoopHist c) = 0 then (0, 0, 0, 0)
      else
        (case fold stats_step (eventLoopHist c) (0.0, eventLoopHist c ! 0, eventLoopHist c ! 0) of
           (acc_sum, mx, mn) \<Rightarrow>
             (let mean = acc_sum / real (length (eventLoopHist c));
                  sorted' = bubble_sort (eventLoopHist c);
                  p95 = sorted' ! p95Index_of (length sorted')
              in (mean, mx, mn, p95))))"

definition calculateEventLoopUtilization :: "real \<Rightarrow> real" where
  "calculateEventLoopUtilization currentLag =
     (if currentLag \<le> 1 then currentLag * 10
      else min 100 (10 + ((currentLag - 1) * 5)))"

definition CollectEventLoop ::
    "World \<Rightarrow> ServiceConfig \<Rightarrow> Collector \<Rightarrow> int \<Rightarrow> int \<Rightarrow> (error + EventLoopMetrics) \<times> Collector" where
  "CollectEventLoop w cfg c pid inspectPort =
     (let lag = (case measureEventLoopLag w cfg inspectPort of Inl err \<Rightarrow> 0 | Inr lag \<Rightarrow> lag);
          hist = eventLoopHist c @ [lag];
          hist = (if length hist > 100 then drop 1 hist else hist);
          c = c\<lparr>eventLoopHist := hist\<rparr>
      in case calculateEventLoopStats c of
           (mean, mx, mn, p95) \<Rightarrow>
             (let utilization = calculateEventLoopUtilization lag
              in (Inr \<lparr>el_Lag = lag, el_Mean = mean, el_Max = mx, el_P95 = p95, el_Min = mn,
                       el_Utilization = utilization\<rparr>, c)))"

definition getThreadPoolMetrics :: "int \<Rightarrow> error + ThreadPoolMetrics" where
  "getThreadPoolMetrics inspectPort =
     Inr \<lparr>tp_QueueSize = 0, tp_PoolSize = 4, tp_ActiveCount = 2, tp_PendingCount = 0\<rparr>"

definition getGCMetrics :: "int \<Rightarrow> error + GCMetrics" where
  "getGCMetrics inspectPort =
     Inr \<lparr>gc_Collections = 1,
          gc_Duration = 2.5,
          gc_HeapSizeBefore = 50 * 1024 * 1024,
          gc_HeapSizeAfter = 45 * 1024 * 1024,
          gc_Type = ''minor'',
          gc_Reason = ''allocation_limit'',
          gc_CollectionsTotal = 10,
          gc_DurationTotal = 25.0\<rparr>"

definition getHandleMetrics :: "int \<Rightarrow> error + HandleMetrics" where
  "getHandleMetrics inspectPort =
     Inr \<lparr>h_Active = 15, h_Refs = 8, h_Timers = 3, h_TCPSockets = 2, h_UDPSockets = 0, h_Files = 2\<rparr>"

definition getV8Metrics :: "int \<Rightarrow> error + V8Metrics" where
  "getV8Metrics inspectPort =
     (let heapSpaces = [(''new_space'', 10 * 1024 * 1024),
                        (''old_space'', 40 * 1024 * 1024),
                        (''code_space'', 5 * 1024 * 1024),
                        (''map_space'', 2 * 1024 * 1024),
                        (''large_object'', 8 * 1024 * 1024)]
      in Inr \<lparr>v8_HeapSpaceUsed = heapSpaces,
              v8_HeapSpaceSize = heapSpaces,
              v8_HeapSpaceAvailable = heapSpaces,
              v8_MallocedMemory = 15 * 1024 * 1024,
              v8_PeakMallocedMemory = 20 * 1024 * 1024\<rparr>)"

text \<open>
  The values the source substitutes when a sub-collection fails. The source writes
  each literal twice, in the collector and in \<open>collectAndProcess\<close>.
\<close>

definition default_ThreadPoolMetrics :: ThreadPoolMetrics where
  "default_ThreadPoolMetrics =
     \<lparr>tp_QueueSize = 0, tp_PoolSize = 4, tp_ActiveCount = 0, tp_PendingCount = 0\<rparr>"

definition default_GCMetrics :: GCMetrics where
  "default_GCMetrics =
     \<lparr>gc_Collections = 0, gc_Duration = 0, gc_HeapSizeBefore = 0, gc_HeapSizeAfter = 0,
      gc_Type = ''unknown'', gc_Reason = ''unknown'', gc_CollectionsTotal = 0, gc_DurationTotal = 0\<rparr>"

definition default_HandleMetrics :: HandleMetrics where
  "default_HandleMetrics =
     \<lparr>h_Active = 0, h_Refs = 0, h_Timers = 0, h_TCPSockets = 0, h_UDPSockets = 0, h_Files = 0\<rparr>"

definition default_V8Metrics :: V8Metrics where
  "default_V8Metrics =
     \<lparr>v8_HeapSpaceUsed = [], v8_HeapSpaceSize = [], v8_HeapSpaceAvailable = [],
      v8_MallocedMemory = 0, v8_PeakMallocedMemory = 0\<rparr>"

definition default_EventLoopMetrics :: EventLoopMetrics where
  "default_EventLoopMetrics =
     \<lparr>el_Lag = 0, el_Mean = 0, el_Max = 0, el_P95 = 0, el_Min = 0, el_Utilization = 0\<rparr>"

definition CollectThreadPool :: "ServiceConfig \<Rightarrow> int \<Rightarrow> error + ThreadPoolMetrics" where
  "CollectThreadPool cfg pid =
     (case getThreadPoolMetrics (cfg_InspectPort cfg) of
        Inl err \<Rightarrow> Inr default_ThreadPoolMetrics
      | Inr metrics \<Rightarrow> Inr metrics)"

definition CollectGC :: "int \<Rightarrow> int \<Rightarrow> error + GCMetrics" where
  "CollectGC pid inspectPort =
     (case getGCMetrics inspectPort of
        Inl err \<Rightarrow> Inr default_GCMetrics
      | Inr metrics \<Rightarrow> Inr metrics)"

definition CollectHandles :: "int \<Rightarrow> int \<Rightarrow> error + HandleMetrics" where
  "CollectHandles pid inspectPort =
     (case getHandleMetrics inspectPort of
        Inl err \<Rightarrow> Inr default_HandleMetrics
      | Inr metrics \<Rightarrow> Inr metrics)"

definition CollectV8 :: "int \<Rightarrow> int \<Rightarrow> error + V8Metrics" where
  "CollectV8 pid inspectPort =
     (case getV8Metrics inspectPort of
        Inl err \<Rightarrow> Inr default_V8Metrics
      | Inr metrics \<Rightarrow> Inr metrics)"

section \<open>Monitor (package monitor)\<close>

text \<open>
  The dashboard prints what it is given; the model keeps the statuses handed to
  \<open>display.Update\<close>, oldest first, in \<open>m_display\<close>. Log lines are not modelled. The
  mutex of the source guards \<open>running\<close>; the model is sequential.
\<close>

record Monitor =
  m_config :: ServiceConfig
  m_metrics :: Collector
  m_display :: "Status list"
  m_alerts :: Manager
  running :: bool

definition New :: "ServiceConfig \<Rightarrow> Monitor" where
  "New cfg = \<lparr>m_config = cfg, m_metrics = NewCollector, m_display = [],
              m_alerts = NewManager, running = False\<rparr>"

text \<open>The first block of \<open>collectAndProcess\<close>: get the PID if not specified.\<close>

definition resolve_pid :: "World \<Rightarrow> Monitor \<Rightarrow> error + Monitor" where
  "resolve_pid w m =
     (if cfg_PID (m_config m) = 0 then
        (case FindProcessByPort w (cfg_Port (m_config m)) of
           Inl err \<Rightarrow> Inl (Wrap ''failed to find process: %w'' err)
         | Inr pid \<Rightarrow> Inr (m\<lparr>m_config := (m_config m)\<lparr>cfg_PID := pid\<rparr>\<rparr>))
      else Inr m)"

text \<open>
  The rest of \<open>collectAndProcess\<close>, once the two mandatory collections have
  succeeded. Every optional collection returns a nil error in the source; the
  fallbacks of the monitor are kept as they are written.
\<close>

definition build_status ::
    "World \<Rightarrow> Monitor \<Rightarrow> CPUMetrics \<Rightarrow> MemoryMetrics \<Rightarrow> Status \<times> Monitor" where
  "build_status w m cpuMetrics memoryMetrics =
     (let cfg = m_config m in
      case CollectEventLoop w cfg (m_metrics m) (cfg_PID cfg) (cfg_InspectPort cfg) of
        (el, c) \<Rightarrow>
          (let eventLoopMetrics = (case el of Inl err \<Rightarrow> default_EventLoopMetrics | Inr x \<Rightarrow> x);
               threadPoolMetrics = (case CollectThreadPool cfg (cfg_PID cfg) of
                                      Inl err \<Rightarrow> default_ThreadPoolMetrics | Inr x \<Rightarrow> x);
               gcMetrics = (case CollectGC (cfg_PID cfg) (cfg_InspectPort cfg) of
                              Inl err \<Rightarrow> default_GCMetrics | Inr x \<Rightarrow> x);
               handleMetrics = (case CollectHandles (cfg_PID cfg) (cfg_InspectPort cfg) of
                                  Inl err \<Rightarrow> default_HandleMetrics | Inr x \<Rightarrow> x);
               v8Metrics = (case CollectV8 (cfg_PID cfg) (cfg_InspectPort cfg) of
                              Inl err \<Rightarrow> default_V8Metrics | Inr x \<Rightarrow> x);
               status = \<lparr>st_PID = cfg_PID cfg,
                         st_CPU = cpuMetrics,
                         st_Memory = memoryMetrics,
                         st_EventLoop = eventLoopMetrics,
                         st_ThreadPool = threadPoolMetrics,
                         st_GC = gcMetrics,
                         st_Handles = handleMetrics,
                         st_V8 = v8Metrics,
                         st_Alerts = []\<rparr>;
               alertList = CheckThresholds (w_Now w) (m_alerts m) status cfg;
               status = status\<lparr>st_Alerts := alertList\<rparr>
           in (status, m\<lparr>m_metrics := c, m_display := m_display m @ [status]\<rparr>)))"

text \<open>
  \<open>collectAndProcess\<close> returns its error (\<open>None\<close> for nil) and the monitor as the
  pass leaves it.
\<close>

definition collectAndProcess :: "World \<Rightarrow> Monitor \<Rightarrow> error option \<times> Monitor" where
  "collectAndProcess w m0 =
     (case resolve_pid w m0 of
        Inl err \<Rightarrow> (Some err, m0)
      | Inr m \<Rightarrow>
          (case CollectCPU w (cfg_PID (m_config m)) of
             Inl err \<Rightarrow> (Some (Wrap ''failed to collect CPU metrics: %w'' err), m)
           | Inr cpuMetrics \<Rightarrow>
               (case CollectMemory w (m_config m) (cfg_PID (m_config m)) of
                  Inl err \<Rightarrow> (Some (Wrap ''failed to collect memory metrics: %w'' err), m)
                | Inr memoryMetrics \<Rightarrow>
                    (None, snd (build_status w m cpuMetrics memoryMetrics)))))"

text \<open>
  \<open>Start\<close> blocks in a loop that selects between the cancellation of the context
  and the next tick. The model is given the events the select receives, in order;
  a tick carries the environment of its collection pass. When the events end before
  the context is cancelled, \<open>Start\<close> has not returned: the outcome is \<open>Blocked\<close>, with
  the monitor as it is at that moment.
\<close>

datatype event = Done | Tick World

datatype outcome = Returned "error option" | Blocked

fun polling_loop :: "Monitor \<Rightarrow> event list \<Rightarrow> outcome \<times> Monitor" where
  "polling_loop m [] = (Blocked, m)"
| "polling_loop m (Done # evs) = (Returned None, m\<lparr>running := False\<rparr>)"
| "polling_loop m (Tick w # evs) = polling_loop (snd (collectAndProcess w m)) evs"

definition Start :: "Monitor \<Rightarrow> event list \<Rightarrow> outcome \<times> Monitor" where
  "Start m evs =
     (if running m then (Returned (Some (Errorf ''monitor is already running'')), m)
      else polling_loop (m\<lparr>running := True\<rparr>) evs)"

section \<open>Vocabulary of the specification\<close>

text \<open>
  The seven metric kinds of the specification, in its evaluation order. The source
  gives the alerts for the event-loop lag and for the event-loop utilization the same
  \<open>Type\<close>, \<open>eventloop\<close>; the format of the message tells them apart.
\<close>

datatype metric = M_cpu | M_memory | M_heap | M_lag | M_utilization | M_gc | M_handles

definition all_metrics :: "metric list" where
  "all_metrics = [M_cpu, M_memory, M_heap, M_lag, M_utilization, M_gc, M_handles]"

fun message_format :: "message \<Rightarrow> string" where
  "message_format (Sprintf f args) = f"

definition alert_metric :: "Alert \<Rightarrow> metric option" where
  "alert_metric a =
     (if a_Type a = ''cpu'' then Some M_cpu
      else if a_Type a = ''memory'' then Some M_memory
      else if a_Type a = ''heap'' then Some M_heap
      else if a_Type a = ''eventloop'' then
        (if message_format (a_Message a) = ''High event loop lag: %.2fms (threshold: 5ms)''
         then Some M_lag
         else if message_format (a_Message a) = ''High event loop utilization: %.1f%% (threshold: 70%%)''
         then Some M_utilization
         else None)
      else if a_Type a = ''gc'' then Some M_gc
      else if a_Type a = ''handles'' then Some M_handles
      else None)"

definition alerts_of :: "metric \<Rightarrow> Alert list \<Rightarrow> Alert list" where
  "alerts_of k alerts = filter (\<lambda>a. alert_metric a = Some k) alerts"

text \<open>
  The observed value of a metric in a snapshot. The heap percentage has no value
  when the heap total is zero.
\<close>

fun metric_value :: "Status \<Rightarrow> metric \<Rightarrow> real option" where
  "metric_value st M_cpu = Some (cpu_Usage (st_CPU st))"
| "metric_value st M_memory = Some (real (unat (mem_RSS (st_Memory st))) / 1024 / 1024)"
| "metric_value st M_heap =
     (if mem_HeapTotal (st_Memory st) = 0 then None
      else Some (real (unat (mem_HeapUsed (st_Memory st)))
                   / real (unat (mem_HeapTotal (st_Memory st))) * 100))"
| "metric_value st M_lag = Some (el_Lag (st_EventLoop st))"
| "metric_value st M_utilization = Some (el_Utilization (st_EventLoop st))"
| "metric_value st M_gc = Some (gc_Duration (st_GC st))"
| "metric_value st M_handles = Some (real_of_int (h_Active (st_Handles st)))"

text \<open>The threshold table of the specification.\<close>

fun warning_band :: "ServiceConfig \<Rightarrow> metric \<Rightarrow> real" where
  "warning_band cfg M_cpu = cfg_CPUThreshold cfg"
| "warning_band cfg M_memory = 150"
| "warning_band cfg M_heap = 80"
| "warning_band cfg M_lag = 5"
| "warning_band cfg M_utilization = 70"
| "warning_band cfg M_gc = 10"
| "warning_band cfg M_handles = 50"

fun critical_band :: "metric \<Rightarrow> real" where
  "critical_band M_cpu = 90"
| "critical_band M_memory = 200"
| "critical_band M_heap = 95"
| "critical_band M_lag = 20"
| "critical_band M_utilization = 90"
| "critical_band M_gc = 50"
| "critical_band M_handles = 100"

text \<open>An alert without its timestamp: severity, observed value and threshold.\<close>

definition alert_summary :: "Alert \<Rightarrow> AlertSeverity \<times> real \<times> real" where
  "alert_summary a = (a_Severity a, a_Value a, a_Threshold a)"

definition strip_time :: "Alert \<Rightarrow> Alert" where
  "strip_time a = a\<lparr>a_Timestamp := 0\<rparr>"

text \<open>The components of the result \<open>(mean, max, min, p95)\<close> of \<open>calculateEventLoopStats\<close>.\<close>

definition stat_mean :: "real \<times> real \<times> real \<times> real \<Rightarrow> real" where
  "stat_mean t = fst t"

definition stat_max :: "real \<times> real \<times> real \<times> real \<Rightarrow> real" where
  "stat_max t = fst (snd t)"

definition stat_min :: "real \<times> real \<times> real \<times> real \<Rightarrow> real" where
  "stat_min t = fst (snd (snd t))"

definition stat_p95 :: "real \<times> real \<times> real \<times> real \<Rightarrow> real" where
  "stat_p95 t = snd (snd (snd t))"

text \<open>
  A sequence of calls of \<open>CollectEventLoop\<close> on a new collector: each call has its
  environment and its arguments. \<open>sample_lag\<close> is the lag the call measures, zero
  when the measurement fails.
\<close>

type_synonym call = "World \<times> ServiceConfig \<times> int \<times> int"

definition collect_step :: "call \<Rightarrow> Collector \<Rightarrow> Collector" where
  "collect_step cl c =
     (case cl of (w, cfg, pid, inspectPort) \<Rightarrow> snd (CollectEventLoop w cfg c pid inspectPort))"

definition sample_lag :: "call \<Rightarrow> real" where
  "sample_lag cl =
     (case cl of (w, cfg, pid, inspectPort) \<Rightarrow>
        (case measureEventLoopLag w cfg inspectPort of Inl err \<Rightarrow> 0 | Inr lag \<Rightarrow> lag))"

definition run_collector :: "call list \<Rightarrow> Collector" where
  "run_collector calls = fold collect_step calls NewCollector"

section \<open>Concrete inputs\<close>

text \<open>
  The zero value \<open>types.Status{}\<close>, and the configuration the \<open>watch\<close> command builds
  from its default flags for the process 4242 (polling interval in nanoseconds).
\<close>

definition zero_Status :: Status where
  "zero_Status =
     \<lparr>st_PID = 0,
      st_CPU = \<lparr>cpu_Usage = 0, cpu_UserTime = 0, cpu_SystemTime = 0\<rparr>,
      st_Memory = \<lparr>mem_RSS = 0, mem_VMS = 0, mem_HeapTotal = 0, mem_HeapUsed = 0, mem_External = 0\<rparr>,
      st_EventLoop = \<lparr>el_Lag = 0, el_Mean = 0, el_Max = 0, el_P95 = 0, el_Min = 0, el_Utilization = 0\<rparr>,
      st_ThreadPool = \<lparr>tp_QueueSize = 0, tp_PoolSize = 0, tp_ActiveCount = 0, tp_PendingCount = 0\<rparr>,
      st_GC = \<lparr>gc_Collections = 0, gc_Duration = 0, gc_HeapSizeBefore = 0, gc_HeapSizeAfter = 0,
               gc_Type = [], gc_Reason = [], gc_CollectionsTotal = 0, gc_DurationTotal = 0\<rparr>,
      st_Handles = \<lparr>h_Active = 0, h_Refs = 0, h_Timers = 0, h_TCPSockets = 0, h_UDPSockets = 0, h_Files = 0\<rparr>,
      st_V8 = \<lparr>v8_HeapSpaceUsed = [], v8_HeapSpaceSize = [], v8_HeapSpaceAvailable = [],
               v8_MallocedMemory = 0, v8_PeakMallocedMemory = 0\<rparr>,
      st_Alerts = []\<rparr>"

definition watch_config :: ServiceConfig where
  "watch_config =
     \<lparr>cfg_Host = ''127.0.0.1'', cfg_Port = 0, cfg_PID = 4242, cfg_InspectPort = 9229,
      cfg_PollingInterval = 100 * 1000000, cfg_HeapLimit = ''150MB'', cfg_CPUThreshold = 70\<rparr>"

text \<open>A snapshot that differs from the zero value in its CPU usage only.\<close>

definition cpu_status :: "real \<Rightarrow> Status" where
  "cpu_status u = zero_Status\<lparr>st_CPU := \<lparr>cpu_Usage = u, cpu_UserTime = 0, cpu_SystemTime = 0\<rparr>\<rparr>"

text \<open>
  The scenario of the specification: the process 4242 exists, uses 95% of a CPU and
  has a resident set of 120MB; nothing answers on the inspector port.
\<close>

definition scenario_process :: Process where
  "scenario_process =
     \<lparr>p_CPUPercent = Inr 95,
      p_Times = Inr (1, 0.5),
      p_MemoryInfo = Inr (120 * 1024 * 1024, 500 * 1024 * 1024),
      p_Connections = Inr [3000]\<rparr>"

definition no_inspector_world :: World where
  "no_inspector_world =
     \<lparr>w_NewProcess = (\<lambda>pid. if pid = 4242 then Inr scenario_process else Inl LibError),
      w_Dial = (\<lambda>port. port = 3000),
      w_Processes = Inr [(4242, scenario_process)],
      w_HttpGetJSON = (\<lambda>port. ConnectFailed),
      w_HttpGetEvaluate = (\<lambda>port. False),
      w_Now = (\<lambda>k. 1000 + k)\<rparr>"

text \<open>
  A snapshot with a CPU usage of 95, a heap total of zero and a heap use that is not
  zero.
\<close>

definition no_heap_status :: Status where
  "no_heap_status =
     (cpu_status 95)\<lparr>st_Memory := \<lparr>mem_RSS = 0, mem_VMS = 0, mem_HeapTotal = 0, mem_HeapUsed = 5,
                                mem_External = 0\<rparr>\<rparr>"

text \<open>The same process, with an inspector that lists one debugging session.\<close>

definition inspector_world :: World where
  "inspector_world =
     no_inspector_world\<lparr>w_HttpGetJSON := (\<lambda>port. Sessions [Some ''ws://127.0.0.1:9229/session'']),
                        w_HttpGetEvaluate := (\<lambda>port. True)\<rparr>"

definition quiet_call :: call where
  "quiet_call = (no_inspector_world, watch_config, 4242, 9229)"

definition busy_call :: call where
  "busy_call = (inspector_world, watch_config, 4242, 9229)"

text \<open>
  A snapshot with a CPU usage of 95, above both CPU bands of the default
  configuration, and an event-loop lag of 6, above the warning band only.
\<close>

definition busy_status :: Status where
  "busy_status =
     (cpu_status 95)\<lparr>st_EventLoop := \<lparr>el_Lag = 6, el_Mean = 6, el_Max = 6, el_P95 = 6, el_Min = 6,
                                      el_Utilization = 35\<rparr>\<rparr>"

section \<open>Properties of the alert evaluator\<close>

subsection \<open>Auxiliary facts about the seven blocks\<close>

lemmas check_defs = check_cpu_def check_memory_def check_heap_def check_lag_def
  check_utilization_def check_gc_def check_handles_def

lemma strip_check_cpu:
  "map strip_time (check_cpu now st cfg alerts) =
     map strip_time alerts @ map strip_time (check_cpu (\<lambda>k. 0) st cfg [])"
  by (simp add: check_cpu_def Let_def strip_time_def)

lemma strip_check_memory:
  "map strip_time (check_memory now st alerts) =
     map strip_time alerts @ map strip_time (check_memory (\<lambda>k. 0) st [])"
  by (simp add: check_memory_def Let_def strip_time_def)

lemma strip_check_heap:
  "map strip_time (check_heap now st alerts) =
     map strip_time alerts @ map strip_time (check_heap (\<lambda>k. 0) st [])"
  by (simp add: check_heap_def Let_def strip_time_def)

lemma strip_check_lag:
  "map strip_time (check_lag now st alerts) =
     map strip_time alerts @ map strip_time (check_lag (\<lambda>k. 0) st [])"
  by (simp add: check_lag_def Let_def strip_time_def)

lemma strip_check_utilization:
  "map strip_time (check_utilization now st alerts) =
     map strip_time alerts @ map strip_time (check_utilization (\<lambda>k. 0) st [])"
  by (simp add: check_utilization_def Let_def strip_time_def)

lemma strip_check_gc:
  "map strip_time (check_gc now st alerts) =
     map strip_time alerts @ map strip_time (check_gc (\<lambda>k. 0) st [])"
  by (simp add: check_gc_def Let_def strip_time_def)

lemma strip_check_handles:
  "map strip_time (check_handles now st alerts) =
     map strip_time alerts @ map strip_time (check_handles (\<lambda>k. 0) st [])"
  by (simp add: check_handles_def Let_def strip_time_def)

lemma strip_CheckThresholds:
  "map strip_time (CheckThresholds now m st cfg) =
     map strip_time (check_cpu (\<lambda>k. 0) st cfg []) @
     map strip_time (check_memory (\<lambda>k. 0) st []) @
     map strip_time (check_heap (\<lambda>k. 0) st []) @
     map strip_time (check_lag (\<lambda>k. 0) st []) @
     map strip_time (check_utilization (\<lambda>k. 0) st []) @
     map strip_time (check_gc (\<lambda>k. 0) st []) @
     map strip_time (check_handles (\<lambda>k. 0) st [])"
  unfolding CheckThresholds_def Let_def
  apply (subst strip_check_handles)
  apply (subst strip_check_gc)
  apply (subst strip_check_utilization)
  apply (subst strip_check_lag)
  apply (subst strip_check_heap)
  apply (subst strip_check_memory)
  apply (subst strip_check_cpu)
  apply simp
  done

lemma alert_metric_strip [simp]: "alert_metric (strip_time a) = alert_metric a"
  by (simp add: alert_metric_def strip_time_def)

lemma alert_summary_strip [simp]: "alert_summary (strip_time a) = alert_summary a"
  by (simp add: alert_summary_def strip_time_def)

lemma alerts_of_strip: "map strip_time (alerts_of k xs) = alerts_of k (map strip_time xs)"
  by (simp add: alerts_of_def filter_map comp_def)

lemma summary_alerts_of:
  "map alert_summary (alerts_of k xs) = map alert_summary (alerts_of k (map strip_time xs))"
proof -
  have "map alert_summary (alerts_of k (map strip_time xs)) =
        map (alert_summary \<circ> strip_time) (alerts_of k xs)"
    by (simp add: alerts_of_strip [symmetric])
  then show ?thesis by (simp add: comp_def)
qed

lemma alerts_of_append: "alerts_of k (xs @ ys) = alerts_of k xs @ alerts_of k ys"
  by (simp add: alerts_of_def)

lemma word_pos_iff: "(0 < (w::64 word)) = (w \<noteq> 0)"
  by (simp add: word_greater_zero_iff)

lemma value_check_cpu:
  "\<forall>a\<in>set alerts. a_Value a > a_Threshold a \<Longrightarrow>
   \<forall>a\<in>set (check_cpu now st cfg alerts). a_Value a > a_Threshold a"
  by (simp add: check_cpu_def Let_def)

lemma value_check_memory:
  "\<forall>a\<in>set alerts. a_Value a > a_Threshold a \<Longrightarrow>
   \<forall>a\<in>set (check_memory now st alerts). a_Value a > a_Threshold a"
  by (simp add: check_memory_def Let_def)

lemma value_check_heap:
  "\<forall>a\<in>set alerts. a_Value a > a_Threshold a \<Longrightarrow>
   \<forall>a\<in>set (check_heap now st alerts). a_Value a > a_Threshold a"
  by (simp add: check_heap_def Let_def)

lemma value_check_lag:
  "\<forall>a\<in>set alerts. a_Value a > a_Threshold a \<Longrightarrow>
   \<forall>a\<in>set (check_lag now st alerts). a_Value a > a_Threshold a"
  by (simp add: check_lag_def Let_def)

lemma value_check_utilization:
  "\<forall>a\<in>set alerts. a_Value a > a_Threshold a \<Longrightarrow>
   \<forall>a\<in>set (check_utilization now st alerts). a_Value a > a_Threshold a"
  by (simp add: check_utilization_def Let_def)

lemma value_check_gc:
  "\<forall>a\<in>set alerts. a_Value a > a_Threshold a \<Longrightarrow>
   \<forall>a\<in>set (check_gc now st alerts). a_Value a > a_Threshold a"
  by (simp add: check_gc_def Let_def)

lemma value_check_handles:
  "\<forall>a\<in>set alerts. a_Value a > a_Threshold a \<Longrightarrow>
   \<forall>a\<in>set (check_handles now st alerts). a_Value a > a_Threshold a"
  by (simp add: check_handles_def Let_def)

lemma stamp_check_cpu:
  "map a_Timestamp alerts = map now [0..<length alerts] \<Longrightarrow>
   map a_Timestamp (check_cpu now st cfg alerts) = map now [0..<length (check_cpu now st cfg alerts)]"
  by (simp add: check_cpu_def Let_def)

lemma stamp_check_memory:
  "map a_Timestamp alerts = map now [0..<length alerts] \<Longrightarrow>
   map a_Timestamp (check_memory now st alerts) = map now [0..<length (check_memory now st alerts)]"
  by (simp add: check_memory_def Let_def)

lemma stamp_check_heap:
  "map a_Timestamp alerts = map now [0..<length alerts] \<Longrightarrow>
   map a_Timestamp (check_heap now st alerts) = map now [0..<length (check_heap now st alerts)]"
  by (simp add: check_heap_def Let_def)

lemma stamp_check_lag:
  "map a_Timestamp alerts = map now [0..<length alerts] \<Longrightarrow>
   map a_Timestamp (check_lag now st alerts) = map now [0..<length (check_lag now st alerts)]"
  by (simp add: check_lag_def Let_def)

lemma stamp_check_utilization:
  "map a_Timestamp alerts = map now [0..<length alerts] \<Longrightarrow>
   map a_Timestamp (check_utilization now st alerts) = map now [0..<length (check_utilization now st alerts)]"
  by (simp add: check_utilization_def Let_def)

lemma stamp_check_gc:
  "map a_Timestamp alerts = map now [0..<length alerts] \<Longrightarrow>
   map a_Timestamp (check_gc now st alerts) = map now [0..<length (check_gc now st alerts)]"
  by (simp add: check_gc_def Let_def)

lemma stamp_check_handles:
  "map a_Timestamp alerts = map now [0..<length alerts] \<Longrightarrow>
   map a_Timestamp (check_handles now st alerts) = map now [0..<length (check_handles now st alerts)]"
  by (simp add: check_handles_def Let_def)

lemma stamp_CheckThresholds:
  "map a_Timestamp (CheckThresholds now m st cfg) = map now [0..<length (CheckThresholds now m st cfg)]"
proof -
  have 0: "map a_Timestamp ([]::Alert list) = map now [0..<length ([]::Alert list)]" by simp
  show ?thesis
    unfolding CheckThresholds_def Let_def
    by (intro stamp_check_handles stamp_check_gc stamp_check_utilization stamp_check_lag
          stamp_check_heap stamp_check_memory stamp_check_cpu 0)
qed

lemma metric_check_cpu: "map alert_metric (map strip_time (check_cpu z st cfg [])) = [] \<or>
   map alert_metric (map strip_time (check_cpu z st cfg [])) = [Some M_cpu]"
  by (simp add: check_cpu_def Let_def strip_time_def alert_metric_def AlertTypeCPU_def)

lemma metric_check_memory: "map alert_metric (map strip_time (check_memory z st [])) = [] \<or>
   map alert_metric (map strip_time (check_memory z st [])) = [Some M_memory]"
  by (simp add: check_memory_def Let_def strip_time_def alert_metric_def AlertTypeMemory_def)

lemma metric_check_heap: "map alert_metric (map strip_time (check_heap z st [])) = [] \<or>
   map alert_metric (map strip_time (check_heap z st [])) = [Some M_heap]"
  by (simp add: check_heap_def Let_def strip_time_def alert_metric_def AlertTypeHeap_def)

lemma metric_check_lag: "map alert_metric (map strip_time (check_lag z st [])) = [] \<or>
   map alert_metric (map strip_time (check_lag z st [])) = [Some M_lag]"
  by (simp add: check_lag_def Let_def strip_time_def alert_metric_def AlertTypeEventLoop_def)

lemma metric_check_utilization: "map alert_metric (map strip_time (check_utilization z st [])) = [] \<or>
   map alert_metric (map strip_time (check_utilization z st [])) = [Some M_utilization]"
  by (simp add: check_utilization_def Let_def strip_time_def alert_metric_def AlertTypeEventLoop_def)

lemma metric_check_gc: "map alert_metric (map strip_time (check_gc z st [])) = [] \<or>
   map alert_metric (map strip_time (check_gc z st [])) = [Some M_gc]"
  by (simp add: check_gc_def Let_def strip_time_def alert_metric_def)

lemma metric_check_handles: "map alert_metric (map strip_time (check_handles z st [])) = [] \<or>
   map alert_metric (map strip_time (check_handles z st [])) = [Some M_handles]"
  by (simp add: check_handles_def Let_def strip_time_def alert_metric_def)

lemma subseq_opt: "xs = [] \<or> xs = [x] \<Longrightarrow> subseq ys zs \<Longrightarrow> subseq (xs @ ys) (x # zs)"
  by auto

lemma metrics_CheckThresholds:
  "subseq (map alert_metric (CheckThresholds now m st cfg)) (map Some all_metrics)"
proof -
  have "map alert_metric (CheckThresholds now m st cfg) =
        map alert_metric (map strip_time (CheckThresholds now m st cfg))"
    by (simp add: comp_def)
  also have "subseq \<dots> (map Some all_metrics)"
    unfolding strip_CheckThresholds map_append all_metrics_def list.map
    apply (rule subseq_opt [OF metric_check_cpu])
    apply (rule subseq_opt [OF metric_check_memory])
    apply (rule subseq_opt [OF metric_check_heap])
    apply (rule subseq_opt [OF metric_check_lag])
    apply (rule subseq_opt [OF metric_check_utilization])
    apply (rule subseq_opt [OF metric_check_gc])
    using metric_check_handles [of "\<lambda>k. 0" st] apply auto
    done
  finally show ?thesis .
qed

lemma type_strip: "a_Type (strip_time a) = a_Type a"
  by (simp add: strip_time_def)

lemma heap_gate_closed:
  "mem_HeapTotal (st_Memory st) = 0 \<Longrightarrow> check_heap now st alerts = alerts"
  by (simp add: check_heap_def)

lemma noheap_check_cpu:
  "\<forall>a\<in>set alerts. a_Type a \<noteq> AlertTypeHeap \<Longrightarrow>
   \<forall>a\<in>set (check_cpu now st cfg alerts). a_Type a \<noteq> AlertTypeHeap"
  by (simp add: check_cpu_def Let_def AlertTypeHeap_def AlertTypeCPU_def)

lemma noheap_check_memory:
  "\<forall>a\<in>set alerts. a_Type a \<noteq> AlertTypeHeap \<Longrightarrow>
   \<forall>a\<in>set (check_memory now st alerts). a_Type a \<noteq> AlertTypeHeap"
  by (simp add: check_memory_def Let_def AlertTypeHeap_def AlertTypeMemory_def)

lemma noheap_check_heap:
  "mem_HeapTotal (st_Memory st) = 0 \<Longrightarrow> \<forall>a\<in>set alerts. a_Type a \<noteq> AlertTypeHeap \<Longrightarrow>
   \<forall>a\<in>set (check_heap now st alerts). a_Type a \<noteq> AlertTypeHeap"
  by (simp add: heap_gate_closed)

lemma noheap_check_lag:
  "\<forall>a\<in>set alerts. a_Type a \<noteq> AlertTypeHeap \<Longrightarrow>
   \<forall>a\<in>set (check_lag now st alerts). a_Type a \<noteq> AlertTypeHeap"
  by (simp add: check_lag_def Let_def AlertTypeHeap_def AlertTypeEventLoop_def)

lemma noheap_check_utilization:
  "\<forall>a\<in>set alerts. a_Type a \<noteq> AlertTypeHeap \<Longrightarrow>
   \<forall>a\<in>set (check_utilization now st alerts). a_Type a \<noteq> AlertTypeHeap"
  by (simp add: check_utilization_def Let_def AlertTypeHeap_def AlertTypeEventLoop_def)

lemma noheap_check_gc:
  "\<forall>a\<in>set alerts. a_Type a \<noteq> AlertTypeHeap \<Longrightarrow>
   \<forall>a\<in>set (check_gc now st alerts). a_Type a \<noteq> AlertTypeHeap"
  by (simp add: check_gc_def Let_def AlertTypeHeap_def)

lemma noheap_check_handles:
  "\<forall>a\<in>set alerts. a_Type a \<noteq> AlertTypeHeap \<Longrightarrow>
   \<forall>a\<in>set (check_handles now st alerts). a_Type a \<noteq> AlertTypeHeap"
  by (simp add: check_handles_def Let_def AlertTypeHeap_def)

lemma types_without_heap_total:
  assumes "mem_HeapTotal (st_Memory st) = 0"
  shows "\<forall>a\<in>set (CheckThresholds now m st cfg). a_Type a \<noteq> AlertTypeHeap"
proof -
  have 0: "\<forall>a\<in>set ([]::Alert list). a_Type a \<noteq> AlertTypeHeap" by simp
  show ?thesis
    unfolding CheckThresholds_def Let_def
    by (intro noheap_check_handles noheap_check_gc noheap_check_utilization noheap_check_lag
          noheap_check_heap [OF assms] noheap_check_memory noheap_check_cpu 0)
qed

lemma heap_used_irrelevant:
  assumes "mem_HeapTotal (st_Memory st) = 0"
  shows "CheckThresholds now m (st\<lparr>st_Memory := (st_Memory st)\<lparr>mem_HeapUsed := u\<rparr>\<rparr>) cfg =
           CheckThresholds now m st cfg"
proof -
  let ?st = "st\<lparr>st_Memory := (st_Memory st)\<lparr>mem_HeapUsed := u\<rparr>\<rparr>"
  have 1: "check_cpu now ?st cfg = check_cpu now st cfg"
    by (rule ext) (simp add: check_cpu_def)
  have 2: "check_memory now ?st = check_memory now st"
    by (rule ext) (simp add: check_memory_def)
  have 3: "check_heap now ?st = check_heap now st"
    using assms by (intro ext) (simp add: heap_gate_closed)
  have 4: "check_lag now ?st = check_lag now st"
    by (rule ext) (simp add: check_lag_def)
  have 5: "check_utilization now ?st = check_utilization now st"
    by (rule ext) (simp add: check_utilization_def)
  have 6: "check_gc now ?st = check_gc now st"
    by (rule ext) (simp add: check_gc_def)
  have 7: "check_handles now ?st = check_handles now st"
    by (rule ext) (simp add: check_handles_def)
  show ?thesis
    unfolding CheckThresholds_def Let_def 1 2 3 4 5 6 7 ..
qed

lemma severity_alerts_of:
  "map a_Severity (alerts_of k xs) = map a_Severity (alerts_of k (map strip_time xs))"
proof -
  have "map a_Severity (alerts_of k (map strip_time xs)) =
        map (a_Severity \<circ> strip_time) (alerts_of k xs)"
    by (simp add: alerts_of_strip [symmetric])
  then show ?thesis by (simp add: comp_def strip_time_def)
qed

lemma severity_CheckThresholds:
  "map a_Severity (alerts_of k (CheckThresholds now m st cfg)) =
     (case metric_value st k of
        None \<Rightarrow> []
      | Some v \<Rightarrow>
          if v > warning_band cfg k
          then [if v > critical_band k then SeverityCritical else SeverityWarning]
          else [])"
  apply (subst severity_alerts_of)
  apply (subst strip_CheckThresholds)
  apply (cases k)
  apply (simp_all add: alerts_of_append)
  apply (simp_all add: alerts_of_def check_defs Let_def strip_time_def alert_metric_def
     AlertTypeCPU_def AlertTypeMemory_def AlertTypeHeap_def AlertTypeEventLoop_def word_pos_iff)
  done

subsection \<open>Claims about the alert evaluator\<close>

text \<open>
  Claim C1, as the code has it. For each of the seven metric kinds, \<open>CheckThresholds\<close>
  produces an alert for the metric exactly when the metric has a value and the value
  exceeds the warning band of the table (for the CPU, the configured threshold); the
  one alert it then produces is critical when the value also exceeds the critical
  band and a warning otherwise, and it carries the value and the warning band as its
  threshold. The heap percentage has a value only when the heap total is not zero.
  For the six fixed bands, and for a CPU threshold of at most 90, this is the claim
  as stated; with a CPU threshold above 90 a usage above 90 that does not exceed the
  threshold produces no alert.
\<close>

theorem C1_bands:
  "map alert_summary (alerts_of k (CheckThresholds now m st cfg)) =
     (case metric_value st k of
        None \<Rightarrow> []
      | Some v \<Rightarrow>
          if v > warning_band cfg k
          then [(if v > critical_band k then SeverityCritical else SeverityWarning, v, warning_band cfg k)]
          else [])"
  apply (subst summary_alerts_of)
  apply (subst strip_CheckThresholds)
  apply (cases k)
  apply (simp_all add: alerts_of_append)
  apply (simp_all add: alerts_of_def check_defs Let_def strip_time_def alert_metric_def alert_summary_def
     AlertTypeCPU_def AlertTypeMemory_def AlertTypeHeap_def AlertTypeEventLoop_def word_pos_iff)
  done

text \<open>
  Claim C1 as stated fails: with a CPU threshold of 95, a usage of 92 exceeds the
  critical band of 90 and yet no CPU alert is produced.
\<close>

theorem C1_counterexample:
  "metric_value (cpu_status 92) M_cpu = Some 92 \<and> (92::real) > critical_band M_cpu \<and>
   alerts_of M_cpu (CheckThresholds (\<lambda>k. 0) NewManager (cpu_status 92) (watch_config\<lparr>cfg_CPUThreshold := 95\<rparr>)) = []"
  by (simp add: cpu_status_def zero_Status_def watch_config_def CheckThresholds_def check_defs Let_def alerts_of_def)

text \<open>
  Claim C5. The alerts come in the fixed order CPU, memory, heap percentage,
  event-loop lag, event-loop utilization, GC duration, handle count: the metrics of
  the alerts returned are a subsequence of that list. Each metric has at most one
  alert, and the higher severity wins: a metric whose value exceeds its warning band
  has exactly one alert, which is critical when the value also exceeds the critical
  band and a warning otherwise; a metric whose value does not exceed its warning
  band, or that has no value, has none.
\<close>

theorem C5_order_and_uniqueness:
  "subseq (map alert_metric (CheckThresholds now m st cfg)) (map Some all_metrics) \<and>
   length (alerts_of k (CheckThresholds now m st cfg)) \<le> 1 \<and>
   map a_Severity (alerts_of k (CheckThresholds now m st cfg)) =
     (case metric_value st k of
        None \<Rightarrow> []
      | Some v \<Rightarrow>
          if v > warning_band cfg k
          then [if v > critical_band k then SeverityCritical else SeverityWarning]
          else [])"
proof (intro conjI)
  show s: "subseq (map alert_metric (CheckThresholds now m st cfg)) (map Some all_metrics)"
    by (rule metrics_CheckThresholds)
  have "length (filter (\<lambda>x. x = Some k) (map alert_metric (CheckThresholds now m st cfg)))
          \<le> length (filter (\<lambda>x. x = Some k) (map Some all_metrics))"
    by (rule list_emb_length [OF subseq_filter [OF s]])
  also have "\<dots> \<le> 1"
    by (cases k) (simp_all add: all_metrics_def)
  finally have "length (filter (\<lambda>x. x = Some k) (map alert_metric (CheckThresholds now m st cfg))) \<le> 1" .
  then show "length (alerts_of k (CheckThresholds now m st cfg)) \<le> 1"
    by (simp add: alerts_of_def filter_map comp_def)
  show "map a_Severity (alerts_of k (CheckThresholds now m st cfg)) =
     (case metric_value st k of
        None \<Rightarrow> []
      | Some v \<Rightarrow>
          if v > warning_band cfg k
          then [if v > critical_band k then SeverityCritical else SeverityWarning]
          else [])"
    by (rule severity_CheckThresholds)
qed

theorem C5_witness:
  "map alert_metric (CheckThresholds (\<lambda>k. k) NewManager busy_status watch_config) =
     [Some M_cpu, Some M_lag] \<and>
   map a_Severity (alerts_of M_cpu (CheckThresholds (\<lambda>k. k) NewManager busy_status watch_config)) =
     [SeverityCritical] \<and>
   map a_Severity (alerts_of M_lag (CheckThresholds (\<lambda>k. k) NewManager busy_status watch_config)) =
     [SeverityWarning] \<and>
   map a_Severity (alerts_of M_gc (CheckThresholds (\<lambda>k. k) NewManager busy_status watch_config)) = [] \<and>
   SeverityCritical \<noteq> SeverityWarning"
proof -
  have o: "map alert_metric (CheckThresholds (\<lambda>k. k) NewManager busy_status watch_config) =
     [Some M_cpu, Some M_lag]"
    by (simp add: busy_status_def cpu_status_def zero_Status_def watch_config_def CheckThresholds_def
        check_defs Let_def alert_metric_def AlertTypeCPU_def AlertTypeEventLoop_def)
  have c: "map a_Severity (alerts_of M_cpu (CheckThresholds (\<lambda>k. k) NewManager busy_status watch_config)) =
     [SeverityCritical]"
    using C5_order_and_uniqueness [of "\<lambda>k. k" NewManager busy_status watch_config M_cpu]
    by (simp add: busy_status_def cpu_status_def zero_Status_def watch_config_def)
  have l: "map a_Severity (alerts_of M_lag (CheckThresholds (\<lambda>k. k) NewManager busy_status watch_config)) =
     [SeverityWarning]"
    using C5_order_and_uniqueness [of "\<lambda>k. k" NewManager busy_status watch_config M_lag]
    by (simp add: busy_status_def cpu_status_def zero_Status_def watch_config_def)
  have g: "map a_Severity (alerts_of M_gc (CheckThresholds (\<lambda>k. k) NewManager busy_status watch_config)) = []"
    using C5_order_and_uniqueness [of "\<lambda>k. k" NewManager busy_status watch_config M_gc]
    by (simp add: busy_status_def cpu_status_def zero_Status_def watch_config_def)
  have d: "SeverityCritical \<noteq> SeverityWarning"
    by (simp add: SeverityCritical_def SeverityWarning_def)
  show ?thesis using o c l g d by simp
qed

text \<open>
  Claim C6. With a heap total of zero there is no alert for the heap percentage and
  no alert of type \<open>heap\<close>, and the result does not depend on the heap use: the
  quotient is not evaluated.
\<close>

theorem C6_heap_gate:
  assumes "mem_HeapTotal (st_Memory st) = 0"
  shows "alerts_of M_heap (CheckThresholds now m st cfg) = [] \<and>
         (\<forall>a\<in>set (CheckThresholds now m st cfg). a_Type a \<noteq> AlertTypeHeap) \<and>
         CheckThresholds now m (st\<lparr>st_Memory := (st_Memory st)\<lparr>mem_HeapUsed := u\<rparr>\<rparr>) cfg =
           CheckThresholds now m st cfg"
proof (intro conjI)
  have "\<forall>a\<in>set (CheckThresholds now m st cfg). alert_metric a \<noteq> Some M_heap"
    using types_without_heap_total [OF assms, of now m cfg]
    by (auto simp: alert_metric_def AlertTypeHeap_def split: if_splits)
  then show "alerts_of M_heap (CheckThresholds now m st cfg) = []"
    by (simp add: alerts_of_def)
  show "\<forall>a\<in>set (CheckThresholds now m st cfg). a_Type a \<noteq> AlertTypeHeap"
    by (rule types_without_heap_total [OF assms])
  show "CheckThresholds now m (st\<lparr>st_Memory := (st_Memory st)\<lparr>mem_HeapUsed := u\<rparr>\<rparr>) cfg =
           CheckThresholds now m st cfg"
    by (rule heap_used_irrelevant [OF assms])
qed

theorem C6_witness:
  "mem_HeapTotal (st_Memory no_heap_status) = 0 \<and>
   mem_HeapUsed (st_Memory no_heap_status) = 5 \<and>
   length (CheckThresholds (\<lambda>k. k) NewManager no_heap_status watch_config) = 1 \<and>
   alerts_of M_heap (CheckThresholds (\<lambda>k. k) NewManager no_heap_status watch_config) = [] \<and>
   list_all (\<lambda>a. a_Type a \<noteq> AlertTypeHeap)
     (CheckThresholds (\<lambda>k. k) NewManager no_heap_status watch_config) \<and>
   CheckThresholds (\<lambda>k. k) NewManager
       (no_heap_status\<lparr>st_Memory := (st_Memory no_heap_status)\<lparr>mem_HeapUsed := 7\<rparr>\<rparr>) watch_config =
     CheckThresholds (\<lambda>k. k) NewManager no_heap_status watch_config"
proof -
  have h: "mem_HeapTotal (st_Memory no_heap_status) = 0"
    by (simp add: no_heap_status_def cpu_status_def zero_Status_def)
  have u: "mem_HeapUsed (st_Memory no_heap_status) = 5"
    by (simp add: no_heap_status_def cpu_status_def zero_Status_def)
  have l: "length (CheckThresholds (\<lambda>k. k) NewManager no_heap_status watch_config) = 1"
    by (simp add: no_heap_status_def cpu_status_def zero_Status_def watch_config_def
        CheckThresholds_def check_defs Let_def)
  show ?thesis
    using h u l C6_heap_gate [OF h, of "\<lambda>k. k" NewManager watch_config 7]
    by (simp add: list_all_iff)
qed

text \<open>
  Claim C8, as the code has it. Two calls with the same snapshot and configuration
  return lists that agree in everything but the timestamps, whatever the clocks and
  the managers; the timestamp of the alert at position \<open>k\<close> is the reading the clock
  gave for it; and with the same clock the result does not depend on the manager,
  which the call leaves as it is.
\<close>

theorem C8_pure_up_to_clock:
  "map strip_time (CheckThresholds now1 m1 st cfg) = map strip_time (CheckThresholds now2 m2 st cfg) \<and>
   map a_Timestamp (CheckThresholds now1 m1 st cfg) = map now1 [0..<length (CheckThresholds now1 m1 st cfg)] \<and>
   CheckThresholds now1 m1 st cfg = CheckThresholds now1 m2 st cfg"
proof (intro conjI)
  show "map strip_time (CheckThresholds now1 m1 st cfg) = map strip_time (CheckThresholds now2 m2 st cfg)"
    by (simp only: strip_CheckThresholds)
  show "map a_Timestamp (CheckThresholds now1 m1 st cfg) = map now1 [0..<length (CheckThresholds now1 m1 st cfg)]"
    by (rule stamp_CheckThresholds)
  show "CheckThresholds now1 m1 st cfg = CheckThresholds now1 m2 st cfg"
    by (simp add: CheckThresholds_def)
qed

text \<open>
  Claim C8 as stated fails: each alert is stamped with \<open>time.Now()\<close>, so two calls
  with the same snapshot and thresholds at different times differ in the timestamps.
\<close>

theorem C8_counterexample:
  "CheckThresholds (\<lambda>k. 1) NewManager (cpu_status 95) watch_config \<noteq>
   CheckThresholds (\<lambda>k. 2) NewManager (cpu_status 95) watch_config"
  by (simp add: cpu_status_def zero_Status_def watch_config_def CheckThresholds_def check_defs Let_def)

text \<open>
  Claim C10. Every alert returned has an observed value strictly above its
  threshold.
\<close>

theorem C10_value_above_threshold:
  "\<forall>a\<in>set (CheckThresholds now m st cfg). a_Value a > a_Threshold a"
proof -
  have 0: "\<forall>a\<in>set ([]::Alert list). a_Value a > a_Threshold a" by simp
  show ?thesis
    unfolding CheckThresholds_def Let_def
    by (intro value_check_handles value_check_gc value_check_utilization value_check_lag
          value_check_heap value_check_memory value_check_cpu 0)
qed

theorem C10_witness:
  "length (CheckThresholds (\<lambda>k. k) NewManager (cpu_status 95) watch_config) = 1 \<and>
   list_all (\<lambda>a. a_Value a > a_Threshold a)
     (CheckThresholds (\<lambda>k. k) NewManager (cpu_status 95) watch_config)"
proof -
  have l: "length (CheckThresholds (\<lambda>k. k) NewManager (cpu_status 95) watch_config) = 1"
    by (simp add: cpu_status_def zero_Status_def watch_config_def CheckThresholds_def check_defs Let_def)
  show ?thesis
    using l C10_value_above_threshold [of "\<lambda>k. k" NewManager "cpu_status 95" watch_config]
    by (simp add: list_all_iff)
qed

section \<open>Properties of the collector\<close>

text \<open>
  Claim C7. The utilization is non-decreasing in the lag; it is ten times the lag
  for a lag from 0 to 1, and above 1 it is \<open>10 + (lag - 1) * 5\<close> capped at 100, which
  is reached at a lag of 19; it never exceeds 100.
\<close>

theorem C7_utilization:
  "(a \<le> b \<longrightarrow> calculateEventLoopUtilization a \<le> calculateEventLoopUtilization b) \<and>
   (0 \<le> lag \<and> lag \<le> 1 \<longrightarrow> calculateEventLoopUtilization lag = lag * 10) \<and>
   (1 < lag \<longrightarrow> calculateEventLoopUtilization lag = min 100 (10 + (lag - 1) * 5)) \<and>
   (1 < lag \<and> lag \<le> 19 \<longrightarrow> calculateEventLoopUtilization lag = 10 + (lag - 1) * 5) \<and>
   (19 \<le> lag \<longrightarrow> calculateEventLoopUtilization lag = 100) \<and>
   calculateEventLoopUtilization lag \<le> 100"
  by (auto simp: calculateEventLoopUtilization_def min_def)

theorem C7_witness:
  "((0.5::real) \<le> 3 \<and> calculateEventLoopUtilization 0.5 \<le> calculateEventLoopUtilization 3) \<and>
   calculateEventLoopUtilization 0.5 = 5 \<and>
   calculateEventLoopUtilization 3 = 20 \<and>
   calculateEventLoopUtilization 19 = 100 \<and>
   calculateEventLoopUtilization 40 = 100"
  using C7_utilization [of "0.5" 3 "0.5"] C7_utilization [of 0 0 3] C7_utilization [of 0 0 19]
    C7_utilization [of 0 0 40]
  by simp

subsection \<open>The bubble sort sorts\<close>

text \<open>
  One run of the inner loop up to \<open>m\<close> keeps the elements, leaves the positions above
  \<open>m\<close> alone and puts a greatest element of the positions up to \<open>m\<close> at \<open>m\<close>. After
  \<open>k\<close> runs the last \<open>k\<close> positions hold their final elements.
\<close>

lemma length_swap_step: "length (swap_step j s) = length s"
  by (simp add: swap_step_def)

lemma mset_swap_step: "Suc j < length s \<Longrightarrow> mset (swap_step j s) = mset s"
  by (simp add: swap_step_def mset_swap)

lemma fold_swap_Suc: "fold swap_step [0..<Suc m] s = swap_step m (fold swap_step [0..<m] s)"
  by simp

lemma length_pass: "length (fold swap_step [0..<m] s) = length s"
  by (induction m) (simp_all add: length_swap_step)

lemma mset_pass: "m < length s \<Longrightarrow> mset (fold swap_step [0..<m] s) = mset s"
  by (induction m) (simp_all add: mset_swap_step length_pass)

lemma swap_step_above: "Suc j < k \<Longrightarrow> swap_step j s ! k = s ! k"
  by (simp add: swap_step_def)

lemma pass_above: "m < k \<Longrightarrow> fold swap_step [0..<m] s ! k = s ! k"
  by (induction m) (simp_all add: swap_step_above)

lemma pass_max:
  "m < length s \<Longrightarrow> j \<le> m \<Longrightarrow> fold swap_step [0..<m] s ! j \<le> fold swap_step [0..<m] s ! m"
proof (induction m arbitrary: j)
  case 0
  then show ?case by simp
next
  case (Suc m)
  let ?t = "fold swap_step [0..<m] s"
  have len: "length ?t = length s" by (rule length_pass)
  have m: "Suc m < length ?t" using Suc.prems len by simp
  have ih: "\<And>i. i \<le> m \<Longrightarrow> ?t ! i \<le> ?t ! m" using Suc.IH Suc.prems by simp
  show ?case
  proof (cases "?t ! m > ?t ! Suc m")
    case True
    then have eq: "swap_step m ?t = ?t[m := ?t ! Suc m, Suc m := ?t ! m]"
      by (simp add: swap_step_def)
    show ?thesis
    proof (cases "j < m")
      case True
      then show ?thesis using eq m ih [of j] by simp
    next
      case False
      then have "j = m \<or> j = Suc m" using Suc.prems by arith
      then show ?thesis using eq m \<open>?t ! m > ?t ! Suc m\<close> by auto
    qed
  next
    case False
    then have eq: "swap_step m ?t = ?t" by (simp add: swap_step_def)
    show ?thesis
    proof (cases "j \<le> m")
      case True
      then show ?thesis using eq ih [of j] False by simp
    next
      case False
      then have "j = Suc m" using Suc.prems by arith
      then show ?thesis by simp
    qed
  qed
qed

lemma pass_prefix:
  assumes "m < length s"
  shows "mset (take (Suc m) (fold swap_step [0..<m] s)) = mset (take (Suc m) s)"
proof -
  let ?t = "fold swap_step [0..<m] s"
  have len: "length ?t = length s" by (rule length_pass)
  have "drop (Suc m) ?t = drop (Suc m) s"
    by (rule nth_equalityI) (simp_all add: len pass_above)
  moreover have "mset (take (Suc m) ?t) + mset (drop (Suc m) ?t) = mset (take (Suc m) s) + mset (drop (Suc m) s)"
    using mset_pass [OF assms] by (simp flip: mset_append)
  ultimately show ?thesis by simp
qed

lemma length_inner_loop: "length (inner_loop i s) = length s"
  by (simp add: inner_loop_def length_pass)

lemma length_outer: "length (fold inner_loop [0..<k] s) = length s"
  by (induction k) (simp_all add: length_inner_loop)

lemma mset_inner_loop: "s \<noteq> [] \<Longrightarrow> mset (inner_loop i s) = mset s"
  by (simp add: inner_loop_def mset_pass)

lemma mset_outer: "mset (fold inner_loop [0..<k] s) = mset s"
proof (cases "s = []")
  case True
  then show ?thesis by (induction k) (simp_all add: inner_loop_def)
next
  case False
  have ne: "fold inner_loop [0..<k] s \<noteq> []" for k
    using False length_outer [of k s] by (metis length_0_conv)
  show ?thesis by (induction k) (simp_all add: mset_inner_loop ne)
qed

lemma outer_inv:
  "k \<le> length s \<Longrightarrow> p \<le> q \<Longrightarrow> q < length s \<Longrightarrow> length s - k \<le> q \<Longrightarrow>
   fold inner_loop [0..<k] s ! p \<le> fold inner_loop [0..<k] s ! q"
proof (induction k arbitrary: p q)
  case 0
  then show ?case by simp
next
  case (Suc k)
  let ?n = "length s"
  let ?t = "fold inner_loop [0..<k] s"
  let ?m = "?n - 1 - k"
  have len: "length ?t = ?n" by (rule length_outer)
  have m: "?m < length ?t" using Suc.prems len by simp
  have step: "fold inner_loop [0..<Suc k] s = fold swap_step [0..<?m] ?t"
    by (simp add: inner_loop_def len)
  have ih: "\<And>p q. p \<le> q \<Longrightarrow> q < ?n \<Longrightarrow> ?n - k \<le> q \<Longrightarrow> ?t ! p \<le> ?t ! q"
    using Suc.IH Suc.prems by simp
  show ?case
  proof (cases "q = ?m")
    case True
    then show ?thesis unfolding step using pass_max [OF m, of p] Suc.prems by simp
  next
    case False
    then have q: "?m < q" "?n - k \<le> q" using Suc.prems by arith+
    have tq: "fold swap_step [0..<?m] ?t ! q = ?t ! q" using q by (simp add: pass_above)
    show ?thesis
    proof (cases "?m < p")
      case True
      then show ?thesis unfolding step using tq ih [of p q] Suc.prems q by (simp add: pass_above)
    next
      case False
      then have "p < Suc ?m" by simp
      then have "fold swap_step [0..<?m] ?t ! p \<in> set (take (Suc ?m) (fold swap_step [0..<?m] ?t))"
        using m nth_mem [of p "take (Suc ?m) (fold swap_step [0..<?m] ?t)"] by (simp add: length_pass)
      then have "fold swap_step [0..<?m] ?t ! p \<in> set (take (Suc ?m) ?t)"
        using pass_prefix [OF m] by (metis set_mset_mset)
      then obtain p' where p': "p' < Suc ?m" "p' < length ?t" "?t ! p' = fold swap_step [0..<?m] ?t ! p"
        by (auto simp: in_set_conv_nth)
      have "?t ! p' \<le> ?t ! q" using ih [of p' q] p' q Suc.prems by simp
      then show ?thesis unfolding step using tq p' by simp
    qed
  qed
qed

lemma sorted_bubble_sort: "sorted (bubble_sort s)"
  unfolding bubble_sort_def sorted_iff_nth_mono
  using outer_inv [of "length s" s] by (simp add: length_outer)

lemma bubble_sort_sort: "bubble_sort s = sort s"
  using properties_for_sort [of "bubble_sort s" s] sorted_bubble_sort [of s]
  by (simp add: bubble_sort_def mset_outer)

lemma p95Index_of_div: "p95Index_of n = min (nat \<lfloor>0.95 * real n\<rfloor>) (n - 1)"
  by (auto simp: p95Index_of_def Let_def min_def mult.commute)

lemma p95Index_of_nat: "p95Index_of n = 95 * n div 100"
proof -
  have "real n * 0.95 = real (95 * n) / real 100" by simp
  then have "\<lfloor>real n * 0.95\<rfloor> = int (95 * n div 100)"
    by (simp only: floor_divide_of_nat_eq)
  then have "nat \<lfloor>real n * 0.95\<rfloor> = 95 * n div 100" by simp
  then show ?thesis by (auto simp: p95Index_of_def Let_def)
qed

lemma fold_stats_step:
  "fold stats_step xs (s, mx, mn) = (s + sum_list xs, Max (insert mx (set xs)), Min (insert mn (set xs)))"
proof (induction xs arbitrary: s mx mn)
  case Nil
  then show ?case by simp
next
  case (Cons x xs)
  have mx: "Max (insert (if mx < x then x else mx) (set xs)) = Max (insert mx (insert x (set xs)))"
    by (cases "set xs = {}") (auto simp: max_def)
  have mn: "Min (insert (if x < mn then x else mn) (set xs)) = Min (insert mn (insert x (set xs)))"
    by (cases "set xs = {}") (auto simp: min_def)
  have step: "stats_step x (s, mx, mn) =
                (s + x, (if mx < x then x else mx), (if x < mn then x else mn))"
    by (simp add: stats_step_def)
  have "fold stats_step (x # xs) (s, mx, mn) = fold stats_step xs (stats_step x (s, mx, mn))"
    by simp
  also have "\<dots> = fold stats_step xs (s + x, (if mx < x then x else mx), (if x < mn then x else mn))"
    by (simp only: step)
  also have "\<dots> = (s + x + sum_list xs, Max (insert (if mx < x then x else mx) (set xs)),
                     Min (insert (if x < mn then x else mn) (set xs)))"
    by (rule Cons.IH)
  also have "\<dots> = (s + sum_list (x # xs), Max (insert mx (set (x # xs))), Min (insert mn (set (x # xs))))"
    by (simp only: mx mn) (simp add: add.assoc)
  finally show ?case .
qed

lemma calculateEventLoopStats_window:
  assumes "eventLoopHist c \<noteq> []"
  shows "calculateEventLoopStats c =
           (sum_list (eventLoopHist c) / real (length (eventLoopHist c)),
            Max (set (eventLoopHist c)),
            Min (set (eventLoopHist c)),
            sort (eventLoopHist c) ! (95 * length (eventLoopHist c) div 100))"
proof -
  have "eventLoopHist c ! 0 \<in> set (eventLoopHist c)" using assms by simp
  then have "insert (eventLoopHist c ! 0) (set (eventLoopHist c)) = set (eventLoopHist c)" by blast
  then show ?thesis
    using assms
    by (simp add: calculateEventLoopStats_def fold_stats_step Let_def bubble_sort_sort p95Index_of_nat)
qed

text \<open>
  Claim C3. For a window that is not empty, the 95th percentile is the element at
  index \<open>floor (0.95 * length)\<close>, clamped to \<open>length - 1\<close>, of the window sorted
  ascending; for the window 1, ..., 10 it is 10; for the empty window the four
  statistics are zero.
\<close>

theorem C3_percentile:
  "(eventLoopHist c \<noteq> [] \<longrightarrow>
      stat_p95 (calculateEventLoopStats c) =
        sort (eventLoopHist c) ! min (nat \<lfloor>0.95 * real (length (eventLoopHist c))\<rfloor>) (length (eventLoopHist c) - 1)) \<and>
   stat_p95 (calculateEventLoopStats \<lparr>eventLoopHist = [1, 2, 3, 4, 5, 6, 7, 8, 9, 10]\<rparr>) = 10 \<and>
   (eventLoopHist c = [] \<longrightarrow> calculateEventLoopStats c = (0, 0, 0, 0))"
proof (intro conjI impI)
  assume "eventLoopHist c \<noteq> []"
  then show "stat_p95 (calculateEventLoopStats c) =
        sort (eventLoopHist c) ! min (nat \<lfloor>0.95 * real (length (eventLoopHist c))\<rfloor>) (length (eventLoopHist c) - 1)"
    by (simp add: calculateEventLoopStats_def stat_p95_def Let_def bubble_sort_sort p95Index_of_div
        split: prod.splits)
next
  show "stat_p95 (calculateEventLoopStats \<lparr>eventLoopHist = [1, 2, 3, 4, 5, 6, 7, 8, 9, 10]\<rparr>) = 10"
    by (simp add: calculateEventLoopStats_window stat_p95_def)
next
  assume "eventLoopHist c = []"
  then show "calculateEventLoopStats c = (0, 0, 0, 0)"
    by (simp add: calculateEventLoopStats_def)
qed

theorem C3_witness:
  "eventLoopHist \<lparr>eventLoopHist = [5, 1, 4]\<rparr> \<noteq> [] \<and>
   stat_p95 (calculateEventLoopStats \<lparr>eventLoopHist = [5, 1, 4]\<rparr>) = 5 \<and>
   eventLoopHist NewCollector = [] \<and>
   calculateEventLoopStats NewCollector = (0, 0, 0, 0)"
  using C3_percentile [of "\<lparr>eventLoopHist = [5, 1, 4]\<rparr>"] C3_percentile [of NewCollector]
  by (simp add: NewCollector_def)

subsection \<open>The rolling window\<close>

lemma hist_collect_step:
  "eventLoopHist (collect_step cl c) =
     (if length (eventLoopHist c) \<ge> 100 then drop 1 (eventLoopHist c @ [sample_lag cl])
      else eventLoopHist c @ [sample_lag cl])"
  by (cases cl)
     (simp add: collect_step_def sample_lag_def CollectEventLoop_def Let_def split: prod.splits sum.splits)

lemma run_collector_snoc: "run_collector (calls @ [cl]) = collect_step cl (run_collector calls)"
  by (simp add: run_collector_def)

lemma hist_run_collector:
  "eventLoopHist (run_collector calls) = drop (length calls - 100) (map sample_lag calls)"
proof (induction calls rule: rev_induct)
  case Nil
  then show ?case by (simp add: run_collector_def NewCollector_def)
next
  case (snoc cl calls)
  let ?L = "map sample_lag calls"
  show ?case
  proof (cases "length calls < 100")
    case True
    then show ?thesis by (simp add: run_collector_snoc hist_collect_step snoc.IH)
  next
    case False
    then have n: "100 \<le> length calls" by simp
    then have len: "length (drop (length calls - 100) ?L) = 100" by simp
    have ne: "drop (length calls - 100) ?L \<noteq> []" using len by auto
    have "eventLoopHist (run_collector (calls @ [cl])) =
            drop 1 (drop (length calls - 100) ?L @ [sample_lag cl])"
      using len by (simp add: run_collector_snoc hist_collect_step snoc.IH)
    also have "\<dots> = drop 1 (drop (length calls - 100) ?L) @ [sample_lag cl]"
      using ne by (cases "drop (length calls - 100) ?L") simp_all
    also have "\<dots> = drop (Suc (length calls) - 100) ?L @ [sample_lag cl]"
    proof -
      have "Suc (length calls - 100) = Suc (length calls) - 100" using n by arith
      then show ?thesis by simp
    qed
    also have "\<dots> = drop (length (calls @ [cl]) - 100) (map sample_lag (calls @ [cl]))"
      using n by simp
    finally show ?thesis .
  qed
qed

lemma stats_CollectEventLoop:
  "fst (CollectEventLoop w cfg c pid port) = Inr em \<Longrightarrow>
   (el_Mean em, el_Max em, el_Min em, el_P95 em) =
     calculateEventLoopStats (snd (CollectEventLoop w cfg c pid port))"
  by (auto simp: CollectEventLoop_def Let_def split: prod.splits)

lemma sample_lag_quiet: "sample_lag quiet_call = 0"
  by (simp add: sample_lag_def quiet_call_def measureEventLoopLag_def getInspectorWebSocketURL_def
      no_inspector_world_def)

lemma sample_lag_busy: "sample_lag busy_call = 48"
  by (simp add: sample_lag_def busy_call_def measureEventLoopLag_def getInspectorWebSocketURL_def
      executeScript_def inspector_world_def no_inspector_world_def watch_config_def scenario_process_def Let_def)

text \<open>
  Claim C4. After any sequence of calls of \<open>CollectEventLoop\<close> on a new collector the
  window holds the last 100 samples, oldest first, so its length never exceeds 100
  and after 101 calls the first sample is gone. A call on a window of fewer than 100
  samples appends its sample; a call on a full window drops the oldest sample and
  appends its own. The statistics a call returns are those of the window it leaves,
  so two runs whose last 100 samples agree have the same statistics.
\<close>

theorem C4_window:
  "eventLoopHist (run_collector calls) = drop (length calls - 100) (map sample_lag calls) \<and>
   length (eventLoopHist (run_collector calls)) \<le> 100 \<and>
   (length calls = 101 \<longrightarrow> eventLoopHist (run_collector calls) = map sample_lag (tl calls)) \<and>
   (length (eventLoopHist c) < 100 \<longrightarrow>
      eventLoopHist (collect_step cl c) = eventLoopHist c @ [sample_lag cl]) \<and>
   (length (eventLoopHist c) = 100 \<longrightarrow>
      eventLoopHist (collect_step cl c) = tl (eventLoopHist c) @ [sample_lag cl]) \<and>
   (fst (CollectEventLoop w cfg c pid port) = Inr em \<longrightarrow>
      (el_Mean em, el_Max em, el_Min em, el_P95 em) =
        calculateEventLoopStats (snd (CollectEventLoop w cfg c pid port))) \<and>
   (drop (length calls - 100) (map sample_lag calls) = drop (length calls' - 100) (map sample_lag calls') \<longrightarrow>
      calculateEventLoopStats (run_collector calls) = calculateEventLoopStats (run_collector calls'))"
proof (intro conjI impI)
  show "eventLoopHist (run_collector calls) = drop (length calls - 100) (map sample_lag calls)"
    by (rule hist_run_collector)
  show "length (eventLoopHist (run_collector calls)) \<le> 100"
    by (simp add: hist_run_collector)
next
  assume "length calls = 101"
  then show "eventLoopHist (run_collector calls) = map sample_lag (tl calls)"
    by (simp add: hist_run_collector drop_Suc map_tl)
next
  assume "length (eventLoopHist c) < 100"
  then show "eventLoopHist (collect_step cl c) = eventLoopHist c @ [sample_lag cl]"
    by (simp add: hist_collect_step)
next
  assume "length (eventLoopHist c) = 100"
  then show "eventLoopHist (collect_step cl c) = tl (eventLoopHist c) @ [sample_lag cl]"
    by (cases "eventLoopHist c") (simp_all add: hist_collect_step)
next
  assume "fst (CollectEventLoop w cfg c pid port) = Inr em"
  then show "(el_Mean em, el_Max em, el_Min em, el_P95 em) =
        calculateEventLoopStats (snd (CollectEventLoop w cfg c pid port))"
    by (rule stats_CollectEventLoop)
next
  assume "drop (length calls - 100) (map sample_lag calls) = drop (length calls' - 100) (map sample_lag calls')"
  then have "eventLoopHist (run_collector calls) = eventLoopHist (run_collector calls')"
    by (simp add: hist_run_collector)
  then show "calculateEventLoopStats (run_collector calls) = calculateEventLoopStats (run_collector calls')"
    by (simp add: calculateEventLoopStats_def)
qed

theorem C4_witness:
  "length (busy_call # replicate 100 quiet_call) = 101 \<and>
   sample_lag busy_call = 48 \<and>
   eventLoopHist (run_collector (busy_call # replicate 99 quiet_call)) = 48 # replicate 99 0 \<and>
   stat_max (calculateEventLoopStats (run_collector (busy_call # replicate 99 quiet_call))) = 48 \<and>
   eventLoopHist (run_collector (busy_call # replicate 100 quiet_call)) = replicate 100 0 \<and>
   stat_max (calculateEventLoopStats (run_collector (busy_call # replicate 100 quiet_call))) = 0 \<and>
   calculateEventLoopStats (run_collector (busy_call # replicate 100 quiet_call)) =
     calculateEventLoopStats (run_collector (replicate 100 quiet_call))"
proof -
  have a: "eventLoopHist (run_collector (busy_call # replicate 99 quiet_call)) = 48 # replicate 99 0"
    using C4_window [of "busy_call # replicate 99 quiet_call"]
    by (simp add: sample_lag_quiet sample_lag_busy)
  have b: "eventLoopHist (run_collector (busy_call # replicate 100 quiet_call)) = replicate 100 0"
    using C4_window [of "busy_call # replicate 100 quiet_call"]
    by (simp add: sample_lag_quiet sample_lag_busy)
  have c: "calculateEventLoopStats (run_collector (busy_call # replicate 100 quiet_call)) =
     calculateEventLoopStats (run_collector (replicate 100 quiet_call))"
    using C4_window [of "busy_call # replicate 100 quiet_call" _ _ _ _ _ _ _ "replicate 100 quiet_call"]
    by simp
  have d: "stat_max (calculateEventLoopStats (run_collector (busy_call # replicate 99 quiet_call))) = 48"
    using a by (simp add: calculateEventLoopStats_window stat_max_def)
  have e: "stat_max (calculateEventLoopStats (run_collector (busy_call # replicate 100 quiet_call))) = 0"
    using b by (simp add: calculateEventLoopStats_window stat_max_def)
  show ?thesis using a b c d e by (simp add: sample_lag_busy)
qed

section \<open>Properties of the monitor\<close>

lemma running_build_status: "running (snd (build_status w m c mm)) = running m"
  by (simp add: build_status_def Let_def split: prod.splits)

lemma running_collectAndProcess: "running (snd (collectAndProcess w m)) = running m"
  by (auto simp: collectAndProcess_def resolve_pid_def running_build_status split: sum.splits)

lemma polling_loop_blocked:
  "\<forall>e\<in>set evs. e \<noteq> Done \<Longrightarrow>
   fst (polling_loop m evs) = Blocked \<and> running (snd (polling_loop m evs)) = running m"
proof (induction m evs rule: polling_loop.induct)
  case (1 m)
  then show ?case by simp
next
  case (2 m evs)
  then show ?case by simp
next
  case (3 m w evs)
  then show ?case by (simp add: running_collectAndProcess)
qed

text \<open>
  Claim C9. \<open>Start\<close> on a monitor that is running returns the error
  \<open>monitor is already running\<close> at once and leaves the monitor as it was, whatever
  events are pending. \<open>Start\<close> on a monitor that is not running sets \<open>running\<close>, and
  the monitor stays running, with \<open>Start\<close> not returning, as long as the context is
  not cancelled.
\<close>

theorem C9_start:
  "(running m \<longrightarrow> Start m evs = (Returned (Some (Errorf ''monitor is already running'')), m)) \<and>
   (\<not> running m \<longrightarrow> Start m [] = (Blocked, m\<lparr>running := True\<rparr>)) \<and>
   (\<not> running m \<and> (\<forall>e\<in>set evs. e \<noteq> Done) \<longrightarrow>
      fst (Start m evs) = Blocked \<and> running (snd (Start m evs)))"
  using polling_loop_blocked [of evs "m\<lparr>running := True\<rparr>"]
  by (simp add: Start_def)

theorem C9_witness:
  "\<not> running (New watch_config) \<and>
   Start (New watch_config) [] = (Blocked, (New watch_config)\<lparr>running := True\<rparr>) \<and>
   running ((New watch_config)\<lparr>running := True\<rparr>) \<and>
   Start ((New watch_config)\<lparr>running := True\<rparr>) [Tick no_inspector_world] =
     (Returned (Some (Errorf ''monitor is already running'')), (New watch_config)\<lparr>running := True\<rparr>) \<and>
   fst (Start (New watch_config) [Tick no_inspector_world]) = Blocked \<and>
   running (snd (Start (New watch_config) [Tick no_inspector_world]))"
  using C9_start [of "New watch_config" "[Tick no_inspector_world]"]
    C9_start [of "(New watch_config)\<lparr>running := True\<rparr>" "[Tick no_inspector_world]"]
  by (simp add: New_def)

text \<open>
  Claim C2, evaluated on the code. With the process of the scenario present and
  nothing answering on the inspector port, the pass does not fail and the lag and the
  other event-loop figures are zero; but the GC metrics, the handle metrics and the
  heap-space maps of the snapshot are the constants that \<open>getGCMetrics\<close>,
  \<open>getHandleMetrics\<close> and \<open>getV8Metrics\<close> return without asking the inspector, not the
  zero values of the fallback branches.
\<close>

theorem C2_stub_metrics_without_inspector:
  "w_HttpGetJSON no_inspector_world (cfg_InspectPort watch_config) = ConnectFailed \<and>
   CollectCPU no_inspector_world (cfg_PID watch_config) =
     Inr \<lparr>cpu_Usage = 95, cpu_UserTime = 1, cpu_SystemTime = 0.5\<rparr> \<and>
   fst (collectAndProcess no_inspector_world (New watch_config)) = None \<and>
   map st_EventLoop (m_display (snd (collectAndProcess no_inspector_world (New watch_config)))) =
     [default_EventLoopMetrics] \<and>
   map st_GC (m_display (snd (collectAndProcess no_inspector_world (New watch_config)))) =
     [\<lparr>gc_Collections = 1, gc_Duration = 2.5, gc_HeapSizeBefore = 52428800, gc_HeapSizeAfter = 47185920,
       gc_Type = ''minor'', gc_Reason = ''allocation_limit'', gc_CollectionsTotal = 10,
       gc_DurationTotal = 25\<rparr>] \<and>
   map st_GC (m_display (snd (collectAndProcess no_inspector_world (New watch_config)))) \<noteq>
     [default_GCMetrics] \<and>
   map (h_Active \<circ> st_Handles) (m_display (snd (collectAndProcess no_inspector_world (New watch_config)))) = [15] \<and>
   map (length \<circ> v8_HeapSpaceUsed \<circ> st_V8)
     (m_display (snd (collectAndProcess no_inspector_world (New watch_config)))) = [5]"
  by (simp add: collectAndProcess_def resolve_pid_def New_def watch_config_def no_inspector_world_def
      scenario_process_def CollectCPU_def CollectMemory_def getNodeMemoryInfo_def build_status_def
      CollectEventLoop_def measureEventLoopLag_def getInspectorWebSocketURL_def
      calculateEventLoopStats_window NewCollector_def calculateEventLoopUtilization_def
      CollectThreadPool_def getThreadPoolMetrics_def CollectGC_def getGCMetrics_def
      CollectHandles_def getHandleMetrics_def CollectV8_def getV8Metrics_def
      default_EventLoopMetrics_def default_GCMetrics_def Let_def)

end
